theory Spec2Isabelle
  imports Complex_Main
begin

section \<open>JavaScript numbers\<close>

text \<open>
  The timer of \<^verbatim>\<open>pomodoro.js\<close> computes with JavaScript numbers. A number is
  \<^verbatim>\<open>NaN\<close>, one of the two infinities, or a finite value. Finite values are
  modelled by real numbers and the arithmetic on them is exact; the two zeros are not
  told apart (the program never divides by a zero it computed, and every test it makes treats
  both alike).

  The source computes with doubles. On whole numbers its sums, differences, remainders and
  products are exact as long as they stay below \<open>2\<^sup>5\<^sup>3\<close>, and so is the floor of a quotient
  by 60; there the model and the source agree digit for digit. Elsewhere a product or a quotient of the source is the
  double nearest to the exact value of the model, and beyond its largest double it is an
  infinity. What is proved below about such values is either a fact of order or range, which
  rounding to the nearest double keeps, or is stated within the exact range.
\<close>

datatype jsnum = NaN | NInf | PInf | Fin real

text \<open>Truthiness of a number, as tested by \<^verbatim>\<open>||\<close> and \<^verbatim>\<open>!\<close>:
  \<^verbatim>\<open>NaN\<close> and zero are falsy.\<close>

fun truthy :: "jsnum \<Rightarrow> bool" where
  "truthy NaN = False"
| "truthy (Fin q) = (q \<noteq> 0)"
| "truthy _ = True"

text \<open>\<^verbatim>\<open>a || d\<close> on numbers.\<close>

definition js_or :: "jsnum \<Rightarrow> jsnum \<Rightarrow> jsnum" where
  "js_or a d = (if truthy a then a else d)"

text \<open>The sign of a number that is not \<^verbatim>\<open>NaN\<close>: \<open>-1\<close>, \<open>0\<close> or \<open>1\<close>.\<close>

fun js_sign :: "jsnum \<Rightarrow> int" where
  "js_sign NaN = 0"
| "js_sign NInf = -1"
| "js_sign PInf = 1"
| "js_sign (Fin q) = (if q < 0 then -1 else if q = 0 then 0 else 1)"

definition inf_of_sign :: "int \<Rightarrow> jsnum" where
  "inf_of_sign k = (if k < 0 then NInf else PInf)"

text \<open>\<^verbatim>\<open>a * b\<close>: an infinity times zero is \<^verbatim>\<open>NaN\<close>.\<close>

fun js_mul :: "jsnum \<Rightarrow> jsnum \<Rightarrow> jsnum" where
  "js_mul NaN _ = NaN"
| "js_mul _ NaN = NaN"
| "js_mul (Fin a) (Fin b) = Fin (a * b)"
| "js_mul a b =
     (if js_sign a = 0 \<or> js_sign b = 0 then NaN else inf_of_sign (js_sign a * js_sign b))"

text \<open>\<^verbatim>\<open>a / b\<close>: a finite value over an infinity is zero, a non-zero value over
  zero is an infinity, \<^verbatim>\<open>0 / 0\<close> and an infinity over an infinity are
  \<^verbatim>\<open>NaN\<close>. (With one zero only, the sign of a quotient by zero follows the
  dividend; no division of the program has a divisor that can be zero.)\<close>

fun js_div :: "jsnum \<Rightarrow> jsnum \<Rightarrow> jsnum" where
  "js_div NaN _ = NaN"
| "js_div _ NaN = NaN"
| "js_div (Fin a) (Fin b) =
     (if b \<noteq> 0 then Fin (a / b) else if a = 0 then NaN else inf_of_sign (js_sign (Fin a)))"
| "js_div (Fin a) _ = Fin 0"
| "js_div a (Fin b) = inf_of_sign (js_sign a * (if b < 0 then -1 else 1))"
| "js_div _ _ = NaN"

text \<open>\<^verbatim>\<open>a - b\<close>: the difference of two equal infinities is \<^verbatim>\<open>NaN\<close>.\<close>

fun js_sub :: "jsnum \<Rightarrow> jsnum \<Rightarrow> jsnum" where
  "js_sub NaN _ = NaN"
| "js_sub _ NaN = NaN"
| "js_sub (Fin a) (Fin b) = Fin (a - b)"
| "js_sub (Fin a) PInf = NInf"
| "js_sub (Fin a) NInf = PInf"
| "js_sub PInf PInf = NaN"
| "js_sub NInf NInf = NaN"
| "js_sub PInf _ = PInf"
| "js_sub NInf _ = NInf"

text \<open>\<^verbatim>\<open>a % b\<close>: the remainder has the sign of the dividend (the quotient is
  truncated towards zero); a finite value modulo an infinity is the value itself.\<close>

definition js_trunc :: "real \<Rightarrow> int" where
  "js_trunc x = (if 0 \<le> x then \<lfloor>x\<rfloor> else \<lceil>x\<rceil>)"

fun js_mod :: "jsnum \<Rightarrow> jsnum \<Rightarrow> jsnum" where
  "js_mod (Fin a) (Fin b) = (if b = 0 then NaN else Fin (a - b * of_int (js_trunc (a / b))))"
| "js_mod (Fin a) PInf = Fin a"
| "js_mod (Fin a) NInf = Fin a"
| "js_mod _ _ = NaN"

text \<open>The comparisons \<^verbatim>\<open>a <= b\<close> (also read as \<^verbatim>\<open>b >= a\<close>) and
  \<^verbatim>\<open>a < b\<close>: false as soon as one side is \<^verbatim>\<open>NaN\<close>.\<close>

fun js_le :: "jsnum \<Rightarrow> jsnum \<Rightarrow> bool" where
  "js_le NaN _ = False"
| "js_le _ NaN = False"
| "js_le NInf _ = True"
| "js_le _ PInf = True"
| "js_le (Fin a) (Fin b) = (a \<le> b)"
| "js_le _ _ = False"

fun js_less :: "jsnum \<Rightarrow> jsnum \<Rightarrow> bool" where
  "js_less NaN _ = False"
| "js_less _ NaN = False"
| "js_less PInf _ = False"
| "js_less _ NInf = False"
| "js_less (Fin a) (Fin b) = (a < b)"
| "js_less _ _ = True"

text \<open>\<^verbatim>\<open>Math.max\<close> and \<^verbatim>\<open>Math.min\<close> of two numbers:
  \<^verbatim>\<open>NaN\<close> if one of them is.\<close>

definition Math_max :: "jsnum \<Rightarrow> jsnum \<Rightarrow> jsnum" where
  "Math_max a b = (if a = NaN \<or> b = NaN then NaN else if js_le a b then b else a)"

definition Math_min :: "jsnum \<Rightarrow> jsnum \<Rightarrow> jsnum" where
  "Math_min a b = (if a = NaN \<or> b = NaN then NaN else if js_le a b then a else b)"

text \<open>\<^verbatim>\<open>Math.floor\<close>, and \<^verbatim>\<open>Math.round\<close>, which rounds a half up
  (\<open>\<lfloor>x + 1/2\<rfloor>\<close>); both leave \<^verbatim>\<open>NaN\<close> and the infinities as they are.\<close>

fun Math_floor :: "jsnum \<Rightarrow> jsnum" where
  "Math_floor (Fin q) = Fin (of_int \<lfloor>q\<rfloor>)"
| "Math_floor a = a"

fun Math_round :: "jsnum \<Rightarrow> jsnum" where
  "Math_round (Fin q) = Fin (of_int \<lfloor>q + 1 / 2\<rfloor>)"
| "Math_round a = a"

section \<open>Numbers as text\<close>

definition digit_char :: "nat \<Rightarrow> char" where
  "digit_char d =
     (if d = 0 then CHR ''0'' else if d = 1 then CHR ''1'' else if d = 2 then CHR ''2''
      else if d = 3 then CHR ''3'' else if d = 4 then CHR ''4'' else if d = 5 then CHR ''5''
      else if d = 6 then CHR ''6'' else if d = 7 then CHR ''7'' else if d = 8 then CHR ''8''
      else CHR ''9'')"

text \<open>The decimal digits of a natural number, most significant first.\<close>

fun decimal :: "nat \<Rightarrow> string" where
  "decimal n = (if n < 10 then [digit_char n] else decimal (n div 10) @ [digit_char (n mod 10)])"

declare decimal.simps [simp del]

text \<open>Trailing zeros of a digit string are dropped for the scientific notation.\<close>

definition strip_zeros :: "string \<Rightarrow> string" where
  "strip_zeros ds = rev (dropWhile (\<lambda>c. c = CHR ''0'') (rev ds))"

text \<open>
  \<^verbatim>\<open>String(n)\<close> for a whole number \<open>n \<ge> 0\<close>: its decimal digits below
  \<open>10\<^sup>2\<^sup>1\<close>, and from there on the scientific notation \<^verbatim>\<open>d.ddde+N\<close> with the
  significant digits of the value. Below \<open>2\<^sup>5\<^sup>3\<close> these are the digits the source prints.
  Above, the source prints the shortest digits that read back as the same double and fills
  up with zeros: the text has the same length and the same exponent as here, and its
  digits may differ from the seventeenth on.
\<close>

definition String_nat :: "nat \<Rightarrow> string" where
  "String_nat n =
     (if n < 10 ^ 21 then decimal n
      else (case strip_zeros (decimal n) of
              [] \<Rightarrow> []
            | [d] \<Rightarrow> [d]
            | d # ds \<Rightarrow> d # CHR ''.'' # ds) @ ''e+'' @ decimal (length (decimal n) - 1))"

text \<open>
  \<^verbatim>\<open>String(x)\<close> for a positive number with a fractional part follows the same
  rules of the language: with \<open>n\<close> the decimal exponent of the value
  (\<open>10\<^sup>n\<^sup>-\<^sup>1 \<le> x < 10\<^sup>n\<close>) and its significant digits, the digits are printed with a point
  after the first \<open>n\<close> of them, or after \<^verbatim>\<open>0.\<close> and up to five zeros, or in scientific
  notation beyond \<open>10\<^sup>2\<^sup>1\<close> and below \<open>10\<^sup>-\<^sup>6\<close>. The source prints the shortest digits that
  read back as the same double, which are at most 17; the model prints the first 17
  significant digits of the value without their trailing zeros (\<^verbatim>\<open>5.5\<close> is "5.5",
  \<^verbatim>\<open>0.05\<close> is "0.05").
\<close>

fun leading_zeros :: "nat \<Rightarrow> real \<Rightarrow> nat" where
  "leading_zeros k x =
     (if k = 0 \<or> 1 \<le> 10 * x then 0 else Suc (leading_zeros (k - 1) (10 * x)))"

declare leading_zeros.simps [simp del]

definition dec_exponent :: "real \<Rightarrow> int" where
  "dec_exponent x =
     (if 1 \<le> x then int (length (decimal (nat \<lfloor>x\<rfloor>))) else - int (leading_zeros 400 x))"

definition significant :: "real \<Rightarrow> nat" where
  "significant x =
     (let n = dec_exponent x
      in if n \<le> 17 then nat \<lfloor>x * 10 ^ nat (17 - n)\<rfloor> else nat \<lfloor>x / 10 ^ nat (n - 17)\<rfloor>)"

definition place_digits :: "string \<Rightarrow> int \<Rightarrow> string" where
  "place_digits ds n =
     (let k = int (length ds)
      in if k \<le> n \<and> n \<le> 21 then ds @ replicate (nat (n - k)) CHR ''0''
         else if 0 < n \<and> n \<le> 21 then take (nat n) ds @ ''.'' @ drop (nat n) ds
         else if - 6 < n \<and> n \<le> 0 then ''0.'' @ replicate (nat (- n)) CHR ''0'' @ ds
         else (case ds of
                 [] \<Rightarrow> []
               | [d] \<Rightarrow> [d]
               | d # r \<Rightarrow> d # CHR ''.'' # r) @
              ''e'' @ (if 0 \<le> n - 1 then ''+'' else ''-'') @ decimal (nat \<bar>n - 1\<bar>))"

definition String_frac :: "real \<Rightarrow> string" where
  "String_frac x = place_digits (strip_zeros (decimal (significant x))) (dec_exponent x)"

text \<open>\<^verbatim>\<open>String(x)\<close> for a number that is not negative, and for any number.\<close>

definition String_pos :: "real \<Rightarrow> string" where
  "String_pos x = (if x = of_int \<lfloor>x\<rfloor> then String_nat (nat \<lfloor>x\<rfloor>) else String_frac x)"

fun String_num :: "jsnum \<Rightarrow> string" where
  "String_num NaN = ''NaN''"
| "String_num PInf = ''Infinity''"
| "String_num NInf = ''-Infinity''"
| "String_num (Fin q) = (if q < 0 then CHR ''-'' # String_pos (- q) else String_pos q)"

text \<open>\<^verbatim>\<open>s.padStart(2, "0")\<close>.\<close>

definition padStart2 :: "string \<Rightarrow> string" where
  "padStart2 s = replicate (2 - length s) CHR ''0'' @ s"

section \<open>Helper functions of the program\<close>

text \<open>\<^verbatim>\<open>clamp(v, min, max) = Math.max(min, Math.min(max, v))\<close>\<close>

definition clamp :: "jsnum \<Rightarrow> jsnum \<Rightarrow> jsnum \<Rightarrow> jsnum" where
  "clamp v lo hi = Math_max lo (Math_min hi v)"

definition formatMMSS :: "jsnum \<Rightarrow> string" where
  "formatMMSS totalSeconds =
     (let s = Math_max (Fin 0) (Math_floor totalSeconds);
          m = Math_floor (js_div s (Fin 60));
          r = js_mod s (Fin 60);
          mm = padStart2 (String_num m);
          ss = padStart2 (String_num r)
      in mm @ '':'' @ ss)"

section \<open>State of the timer, the page and the frame queue\<close>

datatype phase = FOCUS | SHORT | LONG

text \<open>The strings of \<^verbatim>\<open>PHASES\<close>.\<close>

fun phase_name :: "phase \<Rightarrow> string" where
  "phase_name FOCUS = ''FOCUS''"
| "phase_name SHORT = ''SHORT BREAK''"
| "phase_name LONG = ''LONG BREAK''"

text \<open>
  The object \<^verbatim>\<open>state\<close>. \<^verbatim>\<open>cycleCount\<close> starts at 0 and is only ever
  incremented by one or set back to 0, so it is a natural number (the source adds exactly
  on whole numbers below \<open>2\<^sup>5\<^sup>3\<close>). \<^verbatim>\<open>startTime\<close> and
  \<^verbatim>\<open>animationFrame\<close> are \<^verbatim>\<open>null\<close> (\<open>None\<close>) or a value.
\<close>

record state =
  isRunning :: bool
  phase :: phase
  cycleCount :: nat
  startTime :: "jsnum option"
  duration :: jsnum
  elapsed :: jsnum
  animationFrame :: "nat option"

text \<open>
  The \<^verbatim>\<open>value\<close> of an input element is a string, and the program looks at it in
  two ways only: through \<^verbatim>\<open>Number(value)\<close> and, in \<^verbatim>\<open>reset\<close>, through
  its truthiness (only the empty string is falsy). So a value is modelled as the empty string
  or as a non-empty string together with the number that \<^verbatim>\<open>Number\<close> reads from
  it: \<^verbatim>\<open>"25"\<close> is \<open>Str (Fin 25)\<close>, \<^verbatim>\<open>"0"\<close> is \<open>Str (Fin 0)\<close>,
  \<^verbatim>\<open>"abc"\<close> is \<open>Str NaN\<close>. Assigning a number \<open>n\<close> to \<^verbatim>\<open>value\<close>
  stores its text, which is not empty and reads back as \<open>n\<close>: \<open>Str n\<close>.
\<close>

datatype input_value = EmptyStr | Str jsnum

text \<open>\<^verbatim>\<open>Number(value)\<close>: the empty string reads as 0.\<close>

fun Number :: "input_value \<Rightarrow> jsnum" where
  "Number EmptyStr = Fin 0"
| "Number (Str n) = n"

text \<open>
  The elements of \<^verbatim>\<open>ui\<close> as far as the program reads or writes them: the
  \<^verbatim>\<open>strokeDashoffset\<close> of the ring, the text of the label, of the timer and of the
  toggle button, and the values of the four inputs.
\<close>

record dom =
  ringOffset :: jsnum
  label :: string
  timer :: string
  btnToggle :: string
  inputFocus :: input_value
  inputShort :: input_value
  inputLong :: input_value
  inputCycles :: input_value

text \<open>
  The browser's queue of animation-frame requests: the handles whose callback
  \<^verbatim>\<open>loop\<close> is still to be called, and the next handle it will give out.
\<close>

record world =
  st :: state
  ui :: dom
  pending :: "nat set"
  nextHandle :: nat

definition requestAnimationFrame :: "world \<Rightarrow> nat \<times> world" where
  "requestAnimationFrame w =
     (nextHandle w, w\<lparr>pending := insert (nextHandle w) (pending w), nextHandle := Suc (nextHandle w)\<rparr>)"

text \<open>Cancelling \<^verbatim>\<open>null\<close> or a handle that is not pending does nothing.\<close>

definition cancelAnimationFrame :: "world \<Rightarrow> nat option \<Rightarrow> world" where
  "cancelAnimationFrame w h =
     (case h of None \<Rightarrow> w | Some k \<Rightarrow> w\<lparr>pending := pending w - {k}\<rparr>)"

text \<open>
  \<^verbatim>\<open>CIRCUMFERENCE = 2 * Math.PI * RADIUS\<close> with \<^verbatim>\<open>RADIUS = 120\<close>: the
  double \<^verbatim>\<open>753.9822368615503\<close>, whose exact value is the fraction below.
\<close>

definition CIRCUMFERENCE :: jsnum where
  "CIRCUMFERENCE = Fin (3316048946263331 / 4398046511104)"

definition LIMIT :: jsnum where
  "LIMIT = Fin 9000"

section \<open>The timer engine\<close>

definition render :: "world \<Rightarrow> world" where
  "render w =
     (let remaining = Math_max (Fin 0) (js_sub (duration (st w)) (elapsed (st w)));
          progress = (if js_less (Fin 0) (duration (st w))
                      then js_div (elapsed (st w)) (duration (st w)) else Fin 0);
          offset = js_sub CIRCUMFERENCE (js_mul progress CIRCUMFERENCE)
      in w\<lparr>ui := (ui w)\<lparr>timer := formatMMSS remaining, ringOffset := offset\<rparr>\<rparr>)"

text \<open>
  \<^verbatim>\<open>setPhase(newPhase, fromTransition)\<close>; \<open>now\<close> is what
  \<^verbatim>\<open>performance.now()\<close> returns. The minutes of the new phase are chosen by
  the \<^verbatim>\<open>if\<close> chain of the function, each as
  \<^verbatim>\<open>Number(input.value) || default\<close>.
\<close>

definition phase_minutes :: "dom \<Rightarrow> phase \<Rightarrow> jsnum" where
  "phase_minutes u newPhase =
     (if newPhase = FOCUS then js_or (Number (inputFocus u)) (Fin 25)
      else if newPhase = SHORT then js_or (Number (inputShort u)) (Fin 5)
      else js_or (Number (inputLong u)) (Fin 15))"

definition setPhase :: "world \<Rightarrow> phase \<Rightarrow> bool \<Rightarrow> real \<Rightarrow> world" where
  "setPhase w newPhase fromTransition now =
     (let minutes = phase_minutes (ui w) newPhase;
          w1 = w\<lparr>st := (st w)\<lparr>phase := newPhase, elapsed := Fin 0, startTime := Some (Fin now),
                                duration := js_mul minutes (Fin 60)\<rparr>,
                 ui := (ui w)\<lparr>label := phase_name newPhase\<rparr>\<rparr>
      in if \<not> fromTransition
         then render (w1\<lparr>ui := (ui w1)\<lparr>timer := formatMMSS (duration (st w1))\<rparr>\<rparr>)
         else w1)"

definition nextPhase :: "world \<Rightarrow> real \<Rightarrow> world" where
  "nextPhase w now =
     (if phase (st w) = FOCUS then
        (let w1 = w\<lparr>st := (st w)\<lparr>cycleCount := cycleCount (st w) + 1\<rparr>\<rparr>;
             cyclesBeforeLong = js_or (Number (inputCycles (ui w1))) (Fin 4)
         in if js_mod (Fin (of_nat (cycleCount (st w1)))) cyclesBeforeLong = Fin 0
            then setPhase w1 LONG True now
            else setPhase w1 SHORT True now)
      else setPhase w FOCUS True now)"

text \<open>\<^verbatim>\<open>!state.startTime\<close>: \<^verbatim>\<open>null\<close>, zero and \<^verbatim>\<open>NaN\<close> are falsy.\<close>

definition no_startTime :: "world \<Rightarrow> bool" where
  "no_startTime w = (case startTime (st w) of None \<Rightarrow> True | Some t \<Rightarrow> \<not> truthy t)"

text \<open>The reference point that \<^verbatim>\<open>loop\<close> subtracts from, after it has adopted the
  timestamp where there was none.\<close>

definition reference :: "world \<Rightarrow> real \<Rightarrow> jsnum" where
  "reference w timestamp =
     (case startTime (st w) of None \<Rightarrow> Fin timestamp
      | Some t \<Rightarrow> if truthy t then t else Fin timestamp)"

text \<open>The state of \<^verbatim>\<open>loop\<close> at its test \<^verbatim>\<open>state.elapsed >= state.duration\<close>.\<close>

definition loop_elapsed :: "world \<Rightarrow> real \<Rightarrow> world" where
  "loop_elapsed w timestamp =
     (let ref = reference w timestamp;
          deltaMs = js_sub (Fin timestamp) ref
      in w\<lparr>st := (st w)\<lparr>startTime := Some ref, elapsed := js_div deltaMs (Fin 1000)\<rparr>\<rparr>)"

text \<open>The first statement of the branch taken when the phase is over:
  \<^verbatim>\<open>state.elapsed = state.duration\<close>.\<close>

definition loop_clamp :: "world \<Rightarrow> world" where
  "loop_clamp w = w\<lparr>st := (st w)\<lparr>elapsed := duration (st w)\<rparr>\<rparr>"

text \<open>
  \<^verbatim>\<open>loop(timestamp)\<close>, the callback of an animation frame. \<open>now1\<close> is the clock as
  \<^verbatim>\<open>setPhase\<close> reads it during a phase transition, \<open>now2\<close> the clock as the loop
  reads it right after.
\<close>

definition loop :: "world \<Rightarrow> real \<Rightarrow> real \<Rightarrow> real \<Rightarrow> world" where
  "loop w timestamp now1 now2 =
     (if \<not> isRunning (st w) then w
      else
        (let w1 = loop_elapsed w timestamp;
             w2 = (if js_le (duration (st w1)) (elapsed (st w1))
                   then (let w3 = nextPhase (render (loop_clamp w1)) now1
                         in w3\<lparr>st := (st w3)\<lparr>startTime := Some (Fin now2)\<rparr>\<rparr>)
                   else w1);
             (h, w4) = requestAnimationFrame (render w2)
         in w4\<lparr>st := (st w4)\<lparr>animationFrame := Some h\<rparr>\<rparr>))"

section \<open>Control functions\<close>

definition start :: "world \<Rightarrow> real \<Rightarrow> world" where
  "start w now =
     (if isRunning (st w) then w
      else
        (let w1 = (if no_startTime w
                   then (if elapsed (st w) = Fin 0 \<and> duration (st w) = Fin 0
                         then setPhase w FOCUS False now else w)
                   else w\<lparr>st := (st w)\<lparr>startTime :=
                           Some (js_sub (Fin now) (js_mul (elapsed (st w)) (Fin 1000)))\<rparr>\<rparr>);
             w2 = w1\<lparr>st := (st w1)\<lparr>isRunning := True\<rparr>, ui := (ui w1)\<lparr>btnToggle := ''Pause''\<rparr>\<rparr>;
             (h, w3) = requestAnimationFrame w2
         in w3\<lparr>st := (st w3)\<lparr>animationFrame := Some h\<rparr>\<rparr>))"

definition pause :: "world \<Rightarrow> world" where
  "pause w =
     (if \<not> isRunning (st w) then w
      else
        (let w1 = w\<lparr>st := (st w)\<lparr>isRunning := False\<rparr>, ui := (ui w)\<lparr>btnToggle := ''Resume''\<rparr>\<rparr>
         in cancelAnimationFrame w1 (animationFrame (st w1))))"

definition toggle :: "world \<Rightarrow> real \<Rightarrow> world" where
  "toggle w now = (if isRunning (st w) then pause w else start w now)"

text \<open>
  \<^verbatim>\<open>reset()\<close>. Its duration is \<^verbatim>\<open>Number(ui.inputFocus.value || 25) * 60\<close>:
  the default replaces the value only when the string is empty, and
  \<^verbatim>\<open>Number\<close> is applied afterwards (\<open>focus_or_25\<close>).
\<close>

definition focus_or_25 :: "dom \<Rightarrow> jsnum" where
  "focus_or_25 u = (case inputFocus u of EmptyStr \<Rightarrow> Fin 25 | Str n \<Rightarrow> n)"

definition reset :: "world \<Rightarrow> world" where
  "reset w =
     (let w1 = cancelAnimationFrame (w\<lparr>st := (st w)\<lparr>isRunning := False\<rparr>\<rparr>) (animationFrame (st w));
          focus = focus_or_25 (ui w1);
          w2 = w1\<lparr>st := (st w1)\<lparr>phase := FOCUS, cycleCount := 0, startTime := None,
                                  duration := js_mul focus (Fin 60), elapsed := Fin 0\<rparr>\<rparr>
      in w2\<lparr>ui := (ui w2)\<lparr>label := ''READY'', timer := formatMMSS (duration (st w2)),
                            btnToggle := ''Start'', ringOffset := CIRCUMFERENCE\<rparr>\<rparr>)"

section \<open>Input synchronisation\<close>

text \<open>The three \<^verbatim>\<open>change\<close> listeners. The literal \<^verbatim>\<open>0.6\<close> is taken as
  \<open>3/5\<close>.\<close>

definition onFocusChange :: "world \<Rightarrow> world" where
  "onFocusChange w =
     (let f = js_or (Number (inputFocus (ui w))) (Fin 25);
          w1 = w\<lparr>ui := (ui w)\<lparr>
                 inputShort := Str (clamp (Math_round (js_div f (Fin 5))) (Fin 1) LIMIT),
                 inputLong := Str (clamp (Math_round (js_mul f (Fin (6 / 10)))) (Fin 5) LIMIT)\<rparr>\<rparr>
      in if \<not> isRunning (st w1) then reset w1 else w1)"

definition onShortChange :: "world \<Rightarrow> world" where
  "onShortChange w =
     (let s = js_or (Number (inputShort (ui w))) (Fin 5);
          w1 = w\<lparr>ui := (ui w)\<lparr>
                 inputFocus := Str (clamp (js_mul s (Fin 5)) (Fin 5) LIMIT),
                 inputLong := Str (clamp (js_mul s (Fin 3)) (Fin 5) LIMIT)\<rparr>\<rparr>
      in if \<not> isRunning (st w1) then reset w1 else w1)"

definition onLongChange :: "world \<Rightarrow> world" where
  "onLongChange w =
     (let l = js_or (Number (inputLong (ui w))) (Fin 15);
          w1 = w\<lparr>ui := (ui w)\<lparr>
                 inputFocus := Str (clamp (Math_round (js_div l (Fin (6 / 10)))) (Fin 5) LIMIT),
                 inputShort := Str (clamp (Math_round (js_div l (Fin 3))) (Fin 1) LIMIT)\<rparr>\<rparr>
      in if \<not> isRunning (st w1) then reset w1 else w1)"

section \<open>Loading the page\<close>

text \<open>The literal the script assigns to \<^verbatim>\<open>state\<close>.\<close>

definition initial_state :: state where
  "initial_state =
     \<lparr>isRunning = False, phase = FOCUS, cycleCount = 0, startTime = None,
      duration = Fin 0, elapsed = Fin 0, animationFrame = None\<rparr>"

text \<open>
  The world when the script has run its declarations: the ring offset is set to
  \<^verbatim>\<open>CIRCUMFERENCE\<close>, no frame is requested. The texts and the input values come
  from the page, which is not part of the script: the input values are parameters and the
  texts are taken empty.
\<close>

definition initial_world ::
  "input_value \<Rightarrow> input_value \<Rightarrow> input_value \<Rightarrow> input_value \<Rightarrow> world" where
  "initial_world f s l c =
     \<lparr>st = initial_state,
      ui = \<lparr>ringOffset = CIRCUMFERENCE, label = [], timer = [], btnToggle = [],
            inputFocus = f, inputShort = s, inputLong = l, inputCycles = c\<rparr>,
      pending = {}, nextHandle = 1\<rparr>"

text \<open>The last two lines of the script: a \<^verbatim>\<open>change\<close> event on the focus input,
  then \<^verbatim>\<open>reset()\<close>.\<close>

definition init ::
  "input_value \<Rightarrow> input_value \<Rightarrow> input_value \<Rightarrow> input_value \<Rightarrow> world" where
  "init f s l c = reset (onFocusChange (initial_world f s l c))"

section \<open>Notions used to state the properties\<close>

text \<open>A character is a decimal digit.\<close>

definition is_digit :: "char \<Rightarrow> bool" where
  "is_digit c = (c \<in> set ''0123456789'')"

text \<open>The part of a countdown text before its colon.\<close>

definition minutes_part :: "string \<Rightarrow> string" where
  "minutes_part s = takeWhile (\<lambda>c. c \<noteq> CHR '':'') s"

text \<open>An input holds a finite number between two bounds.\<close>

fun in_range :: "input_value \<Rightarrow> real \<Rightarrow> real \<Rightarrow> bool" where
  "in_range (Str (Fin q)) lo hi = (lo \<le> q \<and> q \<le> hi)"
| "in_range _ lo hi = False"

text \<open>The bound on the elapsed time: \<open>0 \<le> elapsed \<le> duration\<close>, with the comparisons of
  the program (so neither is \<^verbatim>\<open>NaN\<close>).\<close>

definition elapsed_bounded :: "world \<Rightarrow> bool" where
  "elapsed_bounded w =
     (js_le (Fin 0) (elapsed (st w)) \<and> js_le (elapsed (st w)) (duration (st w)))"

text \<open>The operations of the engine, each with the clock readings and the frame timestamp it
  receives.\<close>

datatype action =
    SetPhase phase bool real
  | Start real
  | Pause
  | Reset
  | Tick real real real

fun perform :: "world \<Rightarrow> action \<Rightarrow> world" where
  "perform w (SetPhase p fromTransition now) = setPhase w p fromTransition now"
| "perform w (Start now) = start w now"
| "perform w Pause = pause w"
| "perform w Reset = reset w"
| "perform w (Tick timestamp now1 now2) = loop w timestamp now1 now2"

text \<open>No length that the engine reads from the inputs is negative or \<^verbatim>\<open>NaN\<close>:
  the minutes of the three phases as \<^verbatim>\<open>setPhase\<close> reads them, and the focus
  minutes as \<^verbatim>\<open>reset\<close> reads them.\<close>

definition lengths_ok :: "dom \<Rightarrow> bool" where
  "lengths_ok u =
     (js_le (Fin 0) (phase_minutes u FOCUS) \<and> js_le (Fin 0) (phase_minutes u SHORT) \<and>
      js_le (Fin 0) (phase_minutes u LONG) \<and> js_le (Fin 0) (focus_or_25 u))"

text \<open>The timestamp of a frame is not earlier than the reference point it is compared
  with.\<close>

fun timestamp_ok :: "world \<Rightarrow> action \<Rightarrow> bool" where
  "timestamp_ok w (Tick timestamp now1 now2) = js_le (reference w timestamp) (Fin timestamp)"
| "timestamp_ok w _ = True"

text \<open>The phase and the cycle count after each of a series of phase completions, one
  clock reading for each.\<close>

fun completions :: "world \<Rightarrow> real list \<Rightarrow> (phase \<times> nat) list" where
  "completions w [] = []"
| "completions w (now # nows) =
     (let w' = nextPhase w now in (phase (st w'), cycleCount (st w')) # completions w' nows)"

text \<open>
  A frame of the browser for the request \<open>h\<close>: a request that is still pending is taken
  off the queue and its callback \<^verbatim>\<open>loop\<close> is called; a cancelled request is not
  run.
\<close>

definition frame :: "world \<Rightarrow> nat \<Rightarrow> real \<Rightarrow> real \<Rightarrow> real \<Rightarrow> world" where
  "frame w h timestamp now1 now2 =
     (if h \<in> pending w then loop (w\<lparr>pending := pending w - {h}\<rparr>) timestamp now1 now2 else w)"

text \<open>The user types a value into one of the duration inputs; the \<^verbatim>\<open>change\<close>
  listener runs afterwards.\<close>

definition type_focus :: "input_value \<Rightarrow> world \<Rightarrow> world" where
  "type_focus v w = w\<lparr>ui := (ui w)\<lparr>inputFocus := v\<rparr>\<rparr>"



text \<open>
  Three worlds to run the program on: the page loaded with 25, 5 and 15 minutes and 4
  cycles; the same after \<^verbatim>\<open>start()\<close> at clock 0; and the same after two frames, the
  first at timestamp 1000 and the second 600 seconds later, in the middle of the focus
  phase.
\<close>

definition default_page :: world where
  "default_page = init (Str (Fin 25)) (Str (Fin 5)) (Str (Fin 15)) (Str (Fin 4))"

definition running_page :: world where
  "running_page = start default_page 0"

definition mid_focus :: world where
  "mid_focus = frame (frame running_page 1 1000 1000 1000) 2 601000 601000 601000"

section \<open>Facts about numbers and their text\<close>

lemma decimal_numeral:
  "decimal (numeral k) =
     (if (numeral k :: nat) < 10 then [digit_char (numeral k)]
      else decimal (numeral k div 10) @ [digit_char (numeral k mod 10)])"
  by (rule decimal.simps)

lemma decimal_0: "decimal 0 = ''0''"
  by (simp add: decimal.simps [of 0] digit_char_def)

lemma decimal_1: "decimal (Suc 0) = ''1''"
  by (simp add: decimal.simps [of "Suc 0"] digit_char_def)

lemmas format_eval = formatMMSS_def Math_max_def js_trunc_def String_pos_def String_nat_def
  padStart2_def
  digit_char_def decimal_numeral decimal_0 decimal_1 inf_of_sign_def

lemma Math_max_Fin: "Math_max (Fin a) (Fin b) = Fin (max a b)"
  by (simp add: Math_max_def max_def)

lemma Math_min_Fin: "Math_min (Fin a) (Fin b) = Fin (min a b)"
  by (simp add: Math_min_def min_def)

lemma clamp_Fin: "clamp (Fin v) (Fin lo) (Fin hi) = Fin (max lo (min hi v))"
  by (simp add: clamp_def Math_max_Fin Math_min_Fin)

lemma js_mod_nat:
  assumes "0 < c"
  shows "js_mod (Fin (of_nat a)) (Fin (of_nat c)) = Fin (of_nat (a mod c))"
proof -
  have "js_trunc (real a / real c) = int (a div c)"
    by (simp add: js_trunc_def floor_divide_of_nat_eq)
  moreover have "real a - real c * real (a div c) = real (a mod c)"
    by (metis add_diff_cancel_left' mult_div_mod_eq of_nat_add of_nat_mult)
  ultimately show ?thesis using assms by simp
qed

text \<open>On a finite number, \<^verbatim>\<open>formatMMSS\<close> prints the minutes and the seconds of
  the whole, non-negative part.\<close>

lemma formatMMSS_Fin:
  "formatMMSS (Fin t) =
     padStart2 (String_nat (nat (max 0 \<lfloor>t\<rfloor>) div 60)) @ '':'' @
     padStart2 (String_nat (nat (max 0 \<lfloor>t\<rfloor>) mod 60))"
proof -
  define n where "n = nat (max 0 \<lfloor>t\<rfloor>)"
  have s: "Math_max (Fin 0) (Math_floor (Fin t)) = Fin (of_nat n)"
    by (simp add: Math_max_Fin n_def max_def)
  have m: "Math_floor (js_div (Fin (of_nat n)) (Fin 60)) = Fin (of_nat (n div 60))"
    using floor_divide_of_nat_eq [of n 60, where ?'a = real] by simp
  have r: "js_mod (Fin (of_nat n)) (Fin 60) = Fin (of_nat (n mod 60))"
    using js_mod_nat [of 60 n] by simp
  have str: "String_num (Fin (of_nat k)) = String_nat k" for k
    by (simp add: String_pos_def)
  have "formatMMSS (Fin t) =
      padStart2 (String_nat (n div 60)) @ '':'' @ padStart2 (String_nat (n mod 60))"
    by (simp only: formatMMSS_def Let_def s m r str)
  then show ?thesis
    by (simp only: n_def)
qed

lemma digit_char_is_digit: "is_digit (digit_char d)"
  by (simp add: digit_char_def is_digit_def)

lemma decimal_digits: "\<forall>c \<in> set (decimal n). is_digit c"
proof (induction n rule: decimal.induct)
  case (1 n)
  show ?case
  proof (cases "n < 10")
    case True
    then show ?thesis by (simp add: decimal.simps [of n] digit_char_is_digit)
  next
    case False
    with 1 show ?thesis by (simp add: decimal.simps [of n] digit_char_is_digit)
  qed
qed

lemma filter_decimal: "filter is_digit (decimal n) = decimal n"
  using decimal_digits [of n] by (simp add: filter_id_conv)

lemma decimal_not_Nil: "decimal n \<noteq> []"
  by (simp add: decimal.simps [of n])

lemma length_decimal_ge2: "10 \<le> n \<Longrightarrow> 2 \<le> length (decimal n)"
  using decimal_not_Nil [of "n div 10"]
  by (simp add: decimal.simps [of n] Suc_le_eq)

lemma length_decimal_ge3: "100 \<le> n \<Longrightarrow> 3 \<le> length (decimal n)"
  using length_decimal_ge2 [of "n div 10"]
  by (simp add: decimal.simps [of n])

lemma length_decimal_gt: "10 ^ k \<le> n \<Longrightarrow> k < length (decimal n)"
proof (induction k arbitrary: n)
  case 0
  then show ?case using decimal_not_Nil [of n] by simp
next
  case (Suc k)
  then have "10 ^ k \<le> n div 10" by (simp add: less_eq_div_iff_mult_less_eq)
  then have "k < length (decimal (n div 10))" by (rule Suc.IH)
  moreover have "\<not> n < 10" using Suc.prems
    by (metis One_nat_def le_trans not_less one_le_numeral one_le_power power_Suc
        mult.right_neutral mult_le_mono2)
  ultimately show ?case by (simp add: decimal.simps [of n])
qed

lemma hd_decimal: "0 < n \<Longrightarrow> hd (decimal n) \<noteq> CHR ''0''"
proof (induction n rule: decimal.induct)
  case (1 n)
  show ?case
  proof (cases "n < 10")
    case True
    with 1(2) show ?thesis by (simp add: decimal.simps [of n] digit_char_def)
  next
    case False
    then have "0 < n div 10" by simp
    with 1(1) False have "hd (decimal (n div 10)) \<noteq> CHR ''0''" by simp
    with False show ?thesis
      by (simp add: decimal.simps [of n] decimal_not_Nil)
  qed
qed

lemma strip_zeros_not_Nil: "0 < n \<Longrightarrow> strip_zeros (decimal n) \<noteq> []"
proof -
  assume "0 < n"
  then have "hd (decimal n) \<noteq> CHR ''0''" by (rule hd_decimal)
  moreover have "hd (decimal n) \<in> set (decimal n)" by (simp add: decimal_not_Nil)
  ultimately show ?thesis
    by (auto simp: strip_zeros_def)
qed

lemma strip_zeros_digits: "\<forall>c \<in> set (strip_zeros (decimal n)). is_digit c"
  using decimal_digits [of n] by (auto simp: strip_zeros_def dest: set_dropWhileD)

text \<open>From 100 on, the text of a whole number has at least three digits, in either
  notation.\<close>

lemma String_nat_digits: "100 \<le> n \<Longrightarrow> 3 \<le> length (filter is_digit (String_nat n))"
proof (cases "n < 10 ^ 21")
  case True
  assume "100 \<le> n"
  then show ?thesis using True
    by (simp add: String_nat_def filter_decimal length_decimal_ge3)
next
  case False
  then have big: "10 ^ 21 \<le> n" by simp
  then have "21 < length (decimal n)" by (rule length_decimal_gt)
  then have "2 \<le> length (decimal (length (decimal n) - 1))"
    by (intro length_decimal_ge2) simp
  moreover from big have "0 < n"
    by (metis less_le_trans zero_less_numeral zero_less_power)
  then obtain d ds where ds: "strip_zeros (decimal n) = d # ds"
    using strip_zeros_not_Nil [of n] by (cases "strip_zeros (decimal n)") auto
  then have "is_digit d" using strip_zeros_digits [of n] by simp
  ultimately show ?thesis using False ds
    by (cases ds) (simp_all add: String_nat_def filter_decimal)
qed

section \<open>Facts about the operations\<close>







lemma setPhase_st:
  "st (setPhase w p b now) =
     (st w)\<lparr>phase := p, elapsed := Fin 0, startTime := Some (Fin now),
            duration := js_mul (phase_minutes (ui w) p) (Fin 60)\<rparr>"
  by (simp add: setPhase_def Let_def render_def)

lemma setPhase_transition_ui: "ui (setPhase w p True now) = (ui w)\<lparr>label := phase_name p\<rparr>"
  by (simp add: setPhase_def Let_def)

lemma nextPhase_focus:
  assumes "phase (st w) = FOCUS"
  shows "cycleCount (st (nextPhase w now)) = cycleCount (st w) + 1"
    and "phase (st (nextPhase w now)) =
      (if js_mod (Fin (of_nat (cycleCount (st w) + 1)))
            (js_or (Number (inputCycles (ui w))) (Fin 4)) = Fin 0
       then LONG else SHORT)"
  using assms by (simp_all add: nextPhase_def Let_def setPhase_st)

lemma nextPhase_break:
  assumes "phase (st w) \<noteq> FOCUS"
  shows "cycleCount (st (nextPhase w now)) = cycleCount (st w)"
    and "phase (st (nextPhase w now)) = FOCUS"
  using assms by (simp_all add: nextPhase_def Let_def setPhase_st)

lemma nextPhase_inputCycles: "inputCycles (ui (nextPhase w now)) = inputCycles (ui w)"
  by (simp add: nextPhase_def Let_def setPhase_transition_ui)

lemma nextPhase_focus_nat:
  assumes "phase (st w) = FOCUS" and "inputCycles (ui w) = Str (Fin (of_nat c))" and "0 < c"
  shows "phase (st (nextPhase w now)) = (if c dvd cycleCount (st w) + 1 then LONG else SHORT)"
proof -
  have "js_or (Number (inputCycles (ui w))) (Fin 4) = Fin (of_nat c)"
    using assms(2,3) by (simp add: js_or_def)
  then show ?thesis
    using nextPhase_focus(2) [OF assms(1), of now]
      js_mod_nat [OF assms(3), of "cycleCount (st w) + 1"]
    by (simp add: dvd_eq_mod_eq_0 del: of_nat_Suc of_nat_add)
qed

text \<open>With four cycles before the long break, nine completions in a row from a fresh focus
  phase.\<close>

lemma completions_four:
  assumes "phase (st w) = FOCUS" and "cycleCount (st w) = 0"
    and "inputCycles (ui w) = Str (Fin 4)"
  shows "completions w [t1, t2, t3, t4, t5, t6, t7, t8, t9] =
     [(SHORT, 1), (FOCUS, 1), (SHORT, 2), (FOCUS, 2), (SHORT, 3), (FOCUS, 3), (LONG, 4),
      (FOCUS, 4), (SHORT, 5)]"
proof -
  have step_f:
    "phase (st (nextPhase v now)) = (if 4 dvd cycleCount (st v) + 1 then LONG else SHORT)"
    if "phase (st v) = FOCUS" "inputCycles (ui v) = Str (Fin 4)" for v now
    using nextPhase_focus_nat [of v 4 now] that by simp
  have d [simp]: "\<not> 4 dvd Suc 0" "\<not> 4 dvd Suc (Suc 0)" "\<not> 4 dvd Suc (Suc (Suc 0))"
    "4 dvd Suc (Suc (Suc (Suc 0)))" "\<not> 4 dvd Suc (Suc (Suc (Suc (Suc 0))))"
    by presburger+
  define w1 where "w1 = nextPhase w t1"
  define w2 where "w2 = nextPhase w1 t2"
  define w3 where "w3 = nextPhase w2 t3"
  define w4 where "w4 = nextPhase w3 t4"
  define w5 where "w5 = nextPhase w4 t5"
  define w6 where "w6 = nextPhase w5 t6"
  define w7 where "w7 = nextPhase w6 t7"
  define w8 where "w8 = nextPhase w7 t8"
  define w9 where "w9 = nextPhase w8 t9"
  have c: "inputCycles (ui w1) = Str (Fin 4)" "inputCycles (ui w2) = Str (Fin 4)"
    "inputCycles (ui w3) = Str (Fin 4)" "inputCycles (ui w4) = Str (Fin 4)"
    "inputCycles (ui w5) = Str (Fin 4)" "inputCycles (ui w6) = Str (Fin 4)"
    "inputCycles (ui w7) = Str (Fin 4)" "inputCycles (ui w8) = Str (Fin 4)"
    by (simp_all add: w1_def w2_def w3_def w4_def w5_def w6_def w7_def w8_def
        nextPhase_inputCycles assms(3))
  have p1: "phase (st w1) = SHORT \<and> cycleCount (st w1) = 1"
    using step_f [OF assms(1,3), of t1] nextPhase_focus(1) [OF assms(1), of t1] assms(2)
    by (simp add: w1_def)
  have p2: "phase (st w2) = FOCUS \<and> cycleCount (st w2) = 1"
    using nextPhase_break [of w1 t2] p1 by (simp add: w2_def)
  have p3: "phase (st w3) = SHORT \<and> cycleCount (st w3) = 2"
    using step_f [of w2 t3] nextPhase_focus(1) [of w2 t3] p2 c by (simp add: w3_def)
  have p4: "phase (st w4) = FOCUS \<and> cycleCount (st w4) = 2"
    using nextPhase_break [of w3 t4] p3 by (simp add: w4_def)
  have p5: "phase (st w5) = SHORT \<and> cycleCount (st w5) = 3"
    using step_f [of w4 t5] nextPhase_focus(1) [of w4 t5] p4 c by (simp add: w5_def)
  have p6: "phase (st w6) = FOCUS \<and> cycleCount (st w6) = 3"
    using nextPhase_break [of w5 t6] p5 by (simp add: w6_def)
  have p7: "phase (st w7) = LONG \<and> cycleCount (st w7) = 4"
    using step_f [of w6 t7] nextPhase_focus(1) [of w6 t7] p6 c by (simp add: w7_def)
  have p8: "phase (st w8) = FOCUS \<and> cycleCount (st w8) = 4"
    using nextPhase_break [of w7 t8] p7 by (simp add: w8_def)
  have p9: "phase (st w9) = SHORT \<and> cycleCount (st w9) = 5"
    using step_f [of w8 t9] nextPhase_focus(1) [of w8 t9] p8 c by (simp add: w9_def)
  show ?thesis
    using p1 p2 p3 p4 p5 p6 p7 p8 p9
    by (simp add: Let_def w1_def w2_def w3_def w4_def w5_def w6_def w7_def w8_def w9_def)
qed

lemma reset_st:
  "st (reset w) =
     (st w)\<lparr>isRunning := False, phase := FOCUS, cycleCount := 0, startTime := None,
            duration := js_mul (focus_or_25 (ui w)) (Fin 60), elapsed := Fin 0\<rparr>"
  by (simp add: reset_def Let_def cancelAnimationFrame_def split: option.splits)

lemma reset_ui:
  "ui (reset w) =
     (ui w)\<lparr>label := ''READY'', timer := formatMMSS (js_mul (focus_or_25 (ui w)) (Fin 60)),
            btnToggle := ''Start'', ringOffset := CIRCUMFERENCE\<rparr>"
  by (simp add: reset_def Let_def cancelAnimationFrame_def split: option.splits)

lemma reset_frames:
  "pending (reset w) =
     (case animationFrame (st w) of None \<Rightarrow> pending w | Some h \<Rightarrow> pending w - {h})"
  "nextHandle (reset w) = nextHandle w"
  by (simp_all add: reset_def Let_def cancelAnimationFrame_def split: option.splits)

lemma onFocusChange_inputs:
  "inputFocus (ui (onFocusChange w)) = inputFocus (ui w)"
  "inputShort (ui (onFocusChange w)) =
     Str (clamp (Math_round (js_div (js_or (Number (inputFocus (ui w))) (Fin 25)) (Fin 5)))
           (Fin 1) LIMIT)"
  "inputLong (ui (onFocusChange w)) =
     Str (clamp (Math_round (js_mul (js_or (Number (inputFocus (ui w))) (Fin 25)) (Fin (6 / 10))))
           (Fin 5) LIMIT)"
  "inputCycles (ui (onFocusChange w)) = inputCycles (ui w)"
  by (simp_all add: onFocusChange_def Let_def reset_ui)

lemma onShortChange_inputs:
  "inputShort (ui (onShortChange w)) = inputShort (ui w)"
  "inputFocus (ui (onShortChange w)) =
     Str (clamp (js_mul (js_or (Number (inputShort (ui w))) (Fin 5)) (Fin 5)) (Fin 5) LIMIT)"
  "inputLong (ui (onShortChange w)) =
     Str (clamp (js_mul (js_or (Number (inputShort (ui w))) (Fin 5)) (Fin 3)) (Fin 5) LIMIT)"
  "inputCycles (ui (onShortChange w)) = inputCycles (ui w)"
  by (simp_all add: onShortChange_def Let_def reset_ui)

lemma onLongChange_inputs:
  "inputLong (ui (onLongChange w)) = inputLong (ui w)"
  "inputFocus (ui (onLongChange w)) =
     Str (clamp (Math_round (js_div (js_or (Number (inputLong (ui w))) (Fin 15)) (Fin (6 / 10))))
           (Fin 5) LIMIT)"
  "inputShort (ui (onLongChange w)) =
     Str (clamp (Math_round (js_div (js_or (Number (inputLong (ui w))) (Fin 15)) (Fin 3)))
           (Fin 1) LIMIT)"
  "inputCycles (ui (onLongChange w)) = inputCycles (ui w)"
  by (simp_all add: onLongChange_def Let_def reset_ui)

lemma format_1500: "formatMMSS (Fin 1500) = ''25:00''"
  by (simp add: format_eval)

lemma format_900: "formatMMSS (Fin 900) = ''15:00''"
  by (simp add: format_eval)

lemma init_st:
  "st (init f s l c) =
     initial_state\<lparr>duration := js_mul (case f of EmptyStr \<Rightarrow> Fin 25 | Str n \<Rightarrow> n) (Fin 60)\<rparr>"
  by (simp add: init_def onFocusChange_def Let_def reset_st reset_ui initial_world_def
      initial_state_def focus_or_25_def)

lemma init_ui:
  "ui (init f s l c) =
    \<lparr>ringOffset = CIRCUMFERENCE, label = ''READY'',
     timer = formatMMSS (js_mul (case f of EmptyStr \<Rightarrow> Fin 25 | Str n \<Rightarrow> n) (Fin 60)),
     btnToggle = ''Start'', inputFocus = f,
     inputShort =
       Str (clamp (Math_round (js_div (js_or (Number f) (Fin 25)) (Fin 5))) (Fin 1) LIMIT),
     inputLong =
       Str (clamp (Math_round (js_mul (js_or (Number f) (Fin 25)) (Fin (6 / 10)))) (Fin 5) LIMIT),
     inputCycles = c\<rparr>"
  by (simp add: init_def onFocusChange_def Let_def reset_st reset_ui initial_world_def
      initial_state_def focus_or_25_def)

lemma init_frames: "pending (init f s l c) = {}" "nextHandle (init f s l c) = 1"
  by (simp_all add: init_def onFocusChange_def Let_def reset_frames reset_st initial_world_def
      initial_state_def)

text \<open>The three example worlds, computed.\<close>

lemma default_page_eq:
  "default_page =
     \<lparr>st = \<lparr>isRunning = False, phase = FOCUS, cycleCount = 0, startTime = None,
             duration = Fin 1500, elapsed = Fin 0, animationFrame = None\<rparr>,
      ui = \<lparr>ringOffset = CIRCUMFERENCE, label = ''READY'', timer = ''25:00'',
             btnToggle = ''Start'', inputFocus = Str (Fin 25), inputShort = Str (Fin 5),
             inputLong = Str (Fin 15), inputCycles = Str (Fin 4)\<rparr>,
      pending = {}, nextHandle = 1\<rparr>"
proof -
  have "st default_page =
      \<lparr>isRunning = False, phase = FOCUS, cycleCount = 0, startTime = None,
       duration = Fin 1500, elapsed = Fin 0, animationFrame = None\<rparr>"
    by (simp add: default_page_def init_st initial_state_def)
  moreover have "ui default_page =
      \<lparr>ringOffset = CIRCUMFERENCE, label = ''READY'', timer = ''25:00'',
       btnToggle = ''Start'', inputFocus = Str (Fin 25), inputShort = Str (Fin 5),
       inputLong = Str (Fin 15), inputCycles = Str (Fin 4)\<rparr>"
    by (simp add: default_page_def init_ui format_1500 js_or_def clamp_Fin LIMIT_def)
  moreover have "pending default_page = {}" "nextHandle default_page = 1"
    by (simp_all add: default_page_def init_frames)
  ultimately show ?thesis by (cases default_page) simp
qed

lemma running_page_eq:
  "running_page =
     \<lparr>st = \<lparr>isRunning = True, phase = FOCUS, cycleCount = 0, startTime = None,
             duration = Fin 1500, elapsed = Fin 0, animationFrame = Some 1\<rparr>,
      ui = \<lparr>ringOffset = CIRCUMFERENCE, label = ''READY'', timer = ''25:00'',
             btnToggle = ''Pause'', inputFocus = Str (Fin 25), inputShort = Str (Fin 5),
             inputLong = Str (Fin 15), inputCycles = Str (Fin 4)\<rparr>,
      pending = {1}, nextHandle = 2\<rparr>"
  by (simp add: running_page_def default_page_eq start_def Let_def no_startTime_def
      requestAnimationFrame_def)

lemma mid_focus_eq:
  "mid_focus =
     \<lparr>st = \<lparr>isRunning = True, phase = FOCUS, cycleCount = 0, startTime = Some (Fin 1000),
             duration = Fin 1500, elapsed = Fin 600, animationFrame = Some 3\<rparr>,
      ui = \<lparr>ringOffset = js_sub CIRCUMFERENCE (js_mul (Fin (2 / 5)) CIRCUMFERENCE),
             label = ''READY'', timer = ''15:00'',
             btnToggle = ''Pause'', inputFocus = Str (Fin 25), inputShort = Str (Fin 5),
             inputLong = Str (Fin 15), inputCycles = Str (Fin 4)\<rparr>,
      pending = {3}, nextHandle = 4\<rparr>"
  by (simp add: mid_focus_def running_page_eq frame_def loop_def Let_def loop_elapsed_def
      reference_def render_def requestAnimationFrame_def Math_max_Fin format_1500 format_900)

section \<open>The phase cycle\<close>

text \<open>
  Claim C1. For every state, a phase completion (\<^verbatim>\<open>nextPhase\<close>) in the FOCUS phase
  increments \<^verbatim>\<open>cycleCount\<close> by exactly 1 and goes to LONG BREAK if the new count
  modulo \<^verbatim>\<open>cyclesBeforeLong\<close> (the cycles input, or 4 when that reads as zero or
  \<^verbatim>\<open>NaN\<close>) is 0, else to SHORT BREAK; in a break it goes to FOCUS and leaves the
  count unchanged. For a whole number \<open>c > 0\<close> of cycles the long break comes exactly when
  \<open>c\<close> divides the new count. With 4 cycles, from a fresh FOCUS phase, the completions go
  SHORT, FOCUS, SHORT, FOCUS, SHORT, FOCUS, LONG (count 4), FOCUS, and SHORT again at the
  fifth focus completion.
\<close>

theorem nextPhase_cycle:
  "(phase (st w) = FOCUS \<longrightarrow>
      cycleCount (st (nextPhase w now)) = cycleCount (st w) + 1 \<and>
      phase (st (nextPhase w now)) =
        (if js_mod (Fin (of_nat (cycleCount (st w) + 1)))
              (js_or (Number (inputCycles (ui w))) (Fin 4)) = Fin 0
         then LONG else SHORT)) \<and>
   (phase (st w) \<noteq> FOCUS \<longrightarrow>
      phase (st (nextPhase w now)) = FOCUS \<and>
      cycleCount (st (nextPhase w now)) = cycleCount (st w)) \<and>
   (phase (st w) = FOCUS \<and> inputCycles (ui w) = Str (Fin (of_nat c)) \<and> 0 < c \<longrightarrow>
      phase (st (nextPhase w now)) = (if c dvd cycleCount (st w) + 1 then LONG else SHORT)) \<and>
   (phase (st w) = FOCUS \<and> cycleCount (st w) = 0 \<and> inputCycles (ui w) = Str (Fin 4) \<longrightarrow>
      completions w [t1, t2, t3, t4, t5, t6, t7, t8, t9] =
        [(SHORT, 1), (FOCUS, 1), (SHORT, 2), (FOCUS, 2), (SHORT, 3), (FOCUS, 3), (LONG, 4),
         (FOCUS, 4), (SHORT, 5)])"
  using nextPhase_focus [of w now] nextPhase_break [of w now] nextPhase_focus_nat [of w c now]
    completions_four [of w t1 t2 t3 t4 t5 t6 t7 t8 t9]
  by blast

text \<open>The loaded page, in its FOCUS phase with count 0 and 4 cycles, and its first break.\<close>

theorem nextPhase_cycle_witness:
  "phase (st default_page) = FOCUS \<and> cycleCount (st default_page) = 0 \<and>
   inputCycles (ui default_page) = Str (Fin (of_nat 4)) \<and> (0::nat) < 4 \<and>
   phase (st (nextPhase default_page 10)) = SHORT \<and>
   cycleCount (st (nextPhase default_page 10)) = 1 \<and>
   phase (st (nextPhase default_page 10)) \<noteq> FOCUS \<and>
   phase (st (nextPhase (nextPhase default_page 10) 20)) = FOCUS \<and>
   cycleCount (st (nextPhase (nextPhase default_page 10) 20)) = 1 \<and>
   completions default_page [1, 2, 3, 4, 5, 6, 7, 8, 9] =
     [(SHORT, 1), (FOCUS, 1), (SHORT, 2), (FOCUS, 2), (SHORT, 3), (FOCUS, 3), (LONG, 4),
      (FOCUS, 4), (SHORT, 5)]"
proof -
  have h: "phase (st default_page) = FOCUS" "cycleCount (st default_page) = 0"
    "inputCycles (ui default_page) = Str (Fin 4)"
    by (simp_all add: default_page_eq)
  have a: "phase (st (nextPhase default_page 10)) = SHORT \<and>
      cycleCount (st (nextPhase default_page 10)) = 1"
    using nextPhase_cycle [of default_page 10 4] h by (simp add: js_or_def js_trunc_def)
  then have b: "phase (st (nextPhase default_page 10)) \<noteq> FOCUS"
    by simp
  have "phase (st (nextPhase (nextPhase default_page 10) 20)) = FOCUS \<and>
      cycleCount (st (nextPhase (nextPhase default_page 10) 20)) = 1"
    using nextPhase_cycle [of "nextPhase default_page 10" 20] a b by simp
  moreover have "completions default_page [1, 2, 3, 4, 5, 6, 7, 8, 9] =
     [(SHORT, 1), (FOCUS, 1), (SHORT, 2), (FOCUS, 2), (SHORT, 3), (FOCUS, 3), (LONG, 4),
      (FOCUS, 4), (SHORT, 5)]"
    using nextPhase_cycle [of default_page 0 0 1 2 3 4 5 6 7 8 9] h by blast
  ultimately show ?thesis using h a b by simp
qed

section \<open>Reset\<close>

text \<open>Where the focus input is empty or reads as a number that is not zero, \<^verbatim>\<open>reset\<close>
  takes the same duration as \<^verbatim>\<open>setPhase\<close> does for the FOCUS phase; and the ring offset
  it writes is the one \<^verbatim>\<open>render\<close> draws for the state it leaves, at zero progress.\<close>

lemma reset_agrees_with_setPhase:
  assumes "inputFocus (ui w) = EmptyStr \<or> truthy (Number (inputFocus (ui w)))"
  shows "duration (st (reset w)) = duration (st (setPhase w FOCUS b now))"
  using assms
  by (cases "inputFocus (ui w)")
     (auto simp: reset_st setPhase_st focus_or_25_def phase_minutes_def js_or_def)

lemma render_reset_ring: "ringOffset (ui (render (reset w))) = CIRCUMFERENCE"
proof -
  have "js_sub CIRCUMFERENCE (js_mul (Fin 0) CIRCUMFERENCE) = CIRCUMFERENCE"
    by (simp add: CIRCUMFERENCE_def)
  moreover have "js_div (Fin 0) d = Fin 0" if "js_less (Fin 0) d" for d
    using that by (cases d) auto
  ultimately show ?thesis
    by (simp add: render_def Let_def reset_st)
qed

text \<open>
  Claim C3: from every starting state, \<^verbatim>\<open>reset()\<close> leaves the timer not running, in the
  FOCUS phase, with cycle count 0, elapsed 0, the duration equal to the configured focus
  length in seconds, the label "READY", the control label "Start", the countdown text showing
  the full duration and the ring at empty. The state, the labels and the ring are set so from
  every starting state, and from the running focus phase of 25 minutes, 600 seconds in, the
  duration is 1500 and the text "25:00". The duration is not the configured focus length for
  every input: with "0" in the focus input, or a text that is not a number, the engine
  configures a focus phase of 25 minutes (\<^verbatim>\<open>setPhase\<close> gives it 1500 seconds), and
  \<^verbatim>\<open>reset\<close> in the same state leaves the duration 0 with the text "00:00", or
  \<^verbatim>\<open>NaN\<close> with "NaN:NaN".
\<close>

theorem reset_mid_countdown:
  "isRunning (st (reset w)) = False \<and> phase (st (reset w)) = FOCUS \<and>
   cycleCount (st (reset w)) = 0 \<and> elapsed (st (reset w)) = Fin 0 \<and>
   label (ui (reset w)) = ''READY'' \<and> btnToggle (ui (reset w)) = ''Start'' \<and>
   timer (ui (reset w)) = formatMMSS (duration (st (reset w))) \<and>
   ringOffset (ui (reset w)) = CIRCUMFERENCE \<and>
   ringOffset (ui (render (reset w))) = CIRCUMFERENCE \<and>
   isRunning (st mid_focus) \<and> elapsed (st mid_focus) = Fin 600 \<and>
   duration (st (reset mid_focus)) = Fin 1500 \<and> timer (ui (reset mid_focus)) = ''25:00'' \<and>
   duration (st (setPhase (type_focus (Str (Fin 0)) mid_focus) FOCUS False 0)) = Fin 1500 \<and>
   duration (st (reset (type_focus (Str (Fin 0)) mid_focus))) = Fin 0 \<and>
   timer (ui (reset (type_focus (Str (Fin 0)) mid_focus))) = ''00:00'' \<and>
   duration (st (setPhase (type_focus (Str NaN) mid_focus) FOCUS False 0)) = Fin 1500 \<and>
   duration (st (reset (type_focus (Str NaN) mid_focus))) = NaN \<and>
   timer (ui (reset (type_focus (Str NaN) mid_focus))) = ''NaN:NaN''"
proof -
  have f: "formatMMSS (Fin 0) = ''00:00''" "formatMMSS NaN = ''NaN:NaN''"
    by (simp_all add: format_eval)
  show ?thesis
    by (simp add: reset_st reset_ui render_reset_ring setPhase_st mid_focus_eq type_focus_def
        focus_or_25_def phase_minutes_def js_or_def format_1500 f)
qed

section \<open>The countdown text\<close>

lemma colon_not_digit: "is_digit c \<Longrightarrow> c \<noteq> CHR '':''"
  by (auto simp: is_digit_def)

lemma colon_notin_decimal: "CHR '':'' \<notin> set (decimal n)"
  using decimal_digits [of n] colon_not_digit by blast

lemma colon_notin_mantissa:
  "CHR '':'' \<notin> set ds \<Longrightarrow>
   CHR '':'' \<notin> set (case ds of [] \<Rightarrow> [] | [d] \<Rightarrow> [d] | d # r \<Rightarrow> d # CHR ''.'' # r)"
  by (auto split: list.splits)

lemma colon_notin_String_nat: "CHR '':'' \<notin> set (String_nat n)"
proof -
  have "CHR '':'' \<notin> set (strip_zeros (decimal n))"
    using strip_zeros_digits [of n] colon_not_digit by blast
  then show ?thesis
    using colon_notin_mantissa [of "strip_zeros (decimal n)"]
    by (simp add: String_nat_def colon_notin_decimal)
qed

lemma minutes_part_append:
  "CHR '':'' \<notin> set a \<Longrightarrow> minutes_part (a @ '':'' @ b) = a"
  by (auto simp: minutes_part_def takeWhile_tail)

lemma padStart2_long: "2 \<le> length s \<Longrightarrow> padStart2 s = s"
  by (simp add: padStart2_def)

lemma length_padStart2: "2 \<le> length (padStart2 s)"
  by (simp add: padStart2_def)

lemma String_nat_small: "n < 10 ^ 21 \<Longrightarrow> String_nat n = decimal n"
  by (simp add: String_nat_def)

text \<open>
  Claim C7. \<^verbatim>\<open>formatMMSS\<close> floors its argument to whole seconds, clamps negatives to
  zero and pads both fields with zeros to two places: \<^verbatim>\<open>formatMMSS(0)\<close> is "00:00",
  \<^verbatim>\<open>formatMMSS(65)\<close> is "01:05", \<^verbatim>\<open>formatMMSS(-5)\<close> is "00:00" and
  \<^verbatim>\<open>formatMMSS(5999)\<close> is "99:59"; the countdown text that \<^verbatim>\<open>render\<close> writes is
  \<^verbatim>\<open>formatMMSS\<close> of \<open>max(0, duration - elapsed)\<close>. The flooring and the clamping also show
  on 65.9 and on -0.5 seconds; the text of any finite number is the text of its floor clamped
  at zero, and below \<open>2\<^sup>5\<^sup>3\<close> seconds it is the decimal numerals of the whole minutes and of the
  remaining seconds, each padded to two places.
\<close>

theorem formatMMSS_display:
  "formatMMSS (Fin 0) = ''00:00'' \<and> formatMMSS (Fin 65) = ''01:05'' \<and>
   formatMMSS (Fin (- 5)) = ''00:00'' \<and> formatMMSS (Fin 5999) = ''99:59'' \<and>
   formatMMSS (Fin (659 / 10)) = ''01:05'' \<and> formatMMSS (Fin (- 1 / 2)) = ''00:00'' \<and>
   formatMMSS (Fin t) = formatMMSS (Fin (of_int (max 0 \<lfloor>t\<rfloor>))) \<and>
   (t < 2 ^ 53 \<longrightarrow>
      formatMMSS (Fin t) =
        padStart2 (decimal (nat (max 0 \<lfloor>t\<rfloor>) div 60)) @ '':'' @
        padStart2 (decimal (nat (max 0 \<lfloor>t\<rfloor>) mod 60))) \<and>
   padStart2 (decimal 7) = ''07'' \<and> padStart2 (decimal 123) = ''123'' \<and>
   timer (ui (render w)) =
     formatMMSS (Math_max (Fin 0) (js_sub (duration (st w)) (elapsed (st w))))"
proof -
  have ex: "formatMMSS (Fin 0) = ''00:00''" "formatMMSS (Fin 65) = ''01:05''"
    "formatMMSS (Fin (- 5)) = ''00:00''" "formatMMSS (Fin 5999) = ''99:59''"
    "formatMMSS (Fin (659 / 10)) = ''01:05''" "formatMMSS (Fin (- 1 / 2)) = ''00:00''"
    by (simp_all add: format_eval)
  have fl: "formatMMSS (Fin t) = formatMMSS (Fin (of_int (max 0 \<lfloor>t\<rfloor>)))"
    by (simp add: formatMMSS_Fin)
  have g: "formatMMSS (Fin t) =
        padStart2 (decimal (nat (max 0 \<lfloor>t\<rfloor>) div 60)) @ '':'' @
        padStart2 (decimal (nat (max 0 \<lfloor>t\<rfloor>) mod 60))" if "t < 2 ^ 53"
  proof -
    define n where "n = nat (max 0 \<lfloor>t\<rfloor>)"
    have "n < 2 ^ 53" using that unfolding n_def by (simp add: nat_less_iff)
    then have "n div 60 < 10 ^ 21" "n mod 60 < 10 ^ 21" by simp_all
    then show ?thesis
      by (simp add: formatMMSS_Fin String_nat_small n_def [symmetric])
  qed
  have pad: "padStart2 (decimal 7) = ''07''" "padStart2 (decimal 123) = ''123''"
    by (simp_all add: format_eval)
  have rn: "timer (ui (render w)) =
      formatMMSS (Math_max (Fin 0) (js_sub (duration (st w)) (elapsed (st w))))"
    by (simp add: render_def Let_def)
  from ex fl g pad rn show ?thesis by blast
qed

text \<open>65.9 seconds: the floor is 65, one minute and five seconds.\<close>

theorem formatMMSS_display_witness:
  "(659 / 10 :: real) < 2 ^ 53 \<and> \<lfloor>659 / 10 :: real\<rfloor> = 65 \<and>
   formatMMSS (Fin (659 / 10)) = padStart2 (decimal 1) @ '':'' @ padStart2 (decimal 5) \<and>
   padStart2 (decimal 1) @ '':'' @ padStart2 (decimal 5) = ''01:05''"
  using formatMMSS_display [of "659 / 10"] by (simp add: format_eval)

text \<open>
  Claim C10, as stated: for every \<^verbatim>\<open>totalSeconds\<close> \<open>\<ge> 6000\<close> the minutes part has three
  or more digits. It fails for the number \<^verbatim>\<open>Infinity\<close>, which is \<open>\<ge> 6000\<close> and is what
  the duration becomes when the focus input reads as \<^verbatim>\<open>Infinity\<close>: the text is
  "Infinity:NaN", and its minutes part has no digit.
\<close>

theorem formatMMSS_infinity_counterexample:
  "js_le (Fin 6000) PInf \<and> formatMMSS PInf = ''Infinity:NaN'' \<and>
   minutes_part ''Infinity:NaN'' = ''Infinity'' \<and>
   \<not> 3 \<le> length (filter is_digit ''Infinity'')"
  by (simp add: format_eval is_digit_def minutes_part_def)

text \<open>
  Claim C10, amended. For every finite \<^verbatim>\<open>totalSeconds\<close> \<open>\<ge> 6000\<close>, \<^verbatim>\<open>formatMMSS\<close>
  returns a string whose minutes part has three or more digits rather than being truncated or
  capped at "99:59" (\<^verbatim>\<open>formatMMSS(6000)\<close> is "100:00"), so that the countdown is wider
  than the \<^verbatim>\<open>MM:SS\<close> shape. (Below \<open>2\<^sup>5\<^sup>3\<close> seconds the minutes part is the decimal numeral
  of the whole minutes.)
\<close>

theorem formatMMSS_wide:
  "formatMMSS (Fin 6000) = ''100:00'' \<and>
   (6000 \<le> t \<longrightarrow>
      3 \<le> length (filter is_digit (minutes_part (formatMMSS (Fin t)))) \<and>
      5 < length (formatMMSS (Fin t)) \<and>
      formatMMSS (Fin t) \<noteq> ''99:59'' \<and>
      (t < 2 ^ 53 \<longrightarrow> minutes_part (formatMMSS (Fin t)) = decimal (nat \<lfloor>t\<rfloor> div 60)))"
proof -
  have a: "formatMMSS (Fin 6000) = ''100:00''"
    by (simp add: format_eval)
  have b: "3 \<le> length (filter is_digit (minutes_part (formatMMSS (Fin t)))) \<and>
      5 < length (formatMMSS (Fin t)) \<and>
      formatMMSS (Fin t) \<noteq> ''99:59'' \<and>
      (t < 2 ^ 53 \<longrightarrow> minutes_part (formatMMSS (Fin t)) = decimal (nat \<lfloor>t\<rfloor> div 60))"
    if t: "6000 \<le> t"
  proof -
    define n where "n = nat \<lfloor>t\<rfloor>"
    from t have ft: "6000 \<le> \<lfloor>t\<rfloor>" by (simp add: le_floor_iff)
    have n: "6000 \<le> n" using ft unfolding n_def by linarith
    have mx: "nat (max 0 \<lfloor>t\<rfloor>) = n" using ft unfolding n_def by linarith
    define mm where "mm = String_nat (n div 60)"
    define ss where "ss = padStart2 (String_nat (n mod 60))"
    from n have m: "100 \<le> n div 60" by simp
    then have dig: "3 \<le> length (filter is_digit mm)"
      unfolding mm_def by (rule String_nat_digits)
    then have len: "3 \<le> length mm"
      using length_filter_le [of is_digit mm] by linarith
    have f: "formatMMSS (Fin t) = mm @ '':'' @ ss"
      using len by (simp add: formatMMSS_Fin mx mm_def ss_def padStart2_long)
    have mp: "minutes_part (formatMMSS (Fin t)) = mm"
      unfolding f by (rule minutes_part_append) (simp add: mm_def colon_notin_String_nat)
    have l: "5 < length (formatMMSS (Fin t))"
      using len length_padStart2 [of "String_nat (n mod 60)"] by (simp add: f ss_def)
    have ne: "formatMMSS (Fin t) \<noteq> ''99:59''"
      using l by auto
    have "mm = decimal (nat \<lfloor>t\<rfloor> div 60)" if "t < 2 ^ 53"
    proof -
      have "n < 2 ^ 53" using that t unfolding n_def by (simp add: nat_less_iff)
      then have "n div 60 < 10 ^ 21" by simp
      then show ?thesis by (simp add: mm_def String_nat_small n_def)
    qed
    with dig l ne show ?thesis by (simp add: mp)
  qed
  from a b show ?thesis by blast
qed

text \<open>6000 seconds, and 360000.5 seconds, which are 6000 minutes.\<close>

theorem formatMMSS_wide_witness:
  "(6000 :: real) \<le> 360000 + 1 / 2 \<and> (360000 + 1 / 2 :: real) < 2 ^ 53 \<and>
   formatMMSS (Fin (360000 + 1 / 2)) = ''6000:00'' \<and>
   minutes_part ''6000:00'' = ''6000'' \<and> 3 \<le> length (filter is_digit ''6000'') \<and>
   formatMMSS (Fin 6000) = ''100:00''"
  using formatMMSS_wide [of "360000 + 1 / 2"]
  by (simp add: format_eval minutes_part_def is_digit_def)

section \<open>Pause and the frame callback\<close>

text \<open>
  Claim C8. \<^verbatim>\<open>pause()\<close> is idempotent: on a state that is not running it changes
  nothing (no field of the state, no text, no frame request), so pausing twice is the same as
  pausing once, and the timer is not running afterwards.
\<close>

theorem pause_idempotent:
  "pause (pause w) = pause w \<and> (\<not> isRunning (st w) \<longrightarrow> pause w = w) \<and>
   \<not> isRunning (st (pause w))"
  by (simp add: pause_def Let_def cancelAnimationFrame_def split: option.splits)

text \<open>The loaded page is not running; the started page is paused once and twice.\<close>

theorem pause_idempotent_witness:
  "\<not> isRunning (st default_page) \<and> pause default_page = default_page \<and>
   isRunning (st running_page) \<and> pause (pause running_page) = pause running_page \<and>
   btnToggle (ui (pause running_page)) = ''Resume'' \<and> pending (pause running_page) = {} \<and>
   \<not> isRunning (st (pause running_page))"
proof -
  have a: "\<not> isRunning (st default_page)" "isRunning (st running_page)"
    by (simp_all add: default_page_eq running_page_eq)
  have b: "btnToggle (ui (pause running_page)) = ''Resume''" "pending (pause running_page) = {}"
    by (simp_all add: running_page_eq pause_def Let_def cancelAnimationFrame_def)
  from pause_idempotent [of default_page] pause_idempotent [of running_page] a b
  show ?thesis by simp
qed

text \<open>
  Claim C9. In every state that is not running, a call of the frame callback
  \<^verbatim>\<open>loop\<close> leaves the whole world unchanged: no field of the state changes, no phase
  transition happens and no further frame is requested. After \<^verbatim>\<open>pause()\<close> the timer is
  not running, its frame request is cancelled (so the browser does not run it, and no request
  is left when this was the only one) and a call of \<^verbatim>\<open>loop\<close> would do nothing, until
  \<^verbatim>\<open>start()\<close> sets the timer running and requests a frame again.
\<close>

theorem loop_idle:
  "(\<not> isRunning (st w) \<longrightarrow>
      loop w timestamp now1 now2 = w \<and> pending (loop w timestamp now1 now2) = pending w) \<and>
   \<not> isRunning (st (pause w)) \<and>
   loop (pause w) timestamp now1 now2 = pause w \<and>
   (isRunning (st w) \<and> animationFrame (st w) = Some h \<longrightarrow>
      h \<notin> pending (pause w) \<and> frame (pause w) h timestamp now1 now2 = pause w \<and>
      (pending w \<subseteq> {h} \<longrightarrow> pending (pause w) = {})) \<and>
   isRunning (st (start (pause w) now)) \<and>
   nextHandle (pause w) \<in> pending (start (pause w) now)"
proof -
  have a: "\<not> isRunning (st (pause w))"
    by (simp add: pause_def Let_def cancelAnimationFrame_def split: option.splits)
  have b: "loop v timestamp now1 now2 = v" if "\<not> isRunning (st v)" for v
    using that by (simp add: loop_def)
  have c: "h \<notin> pending (pause w) \<and> (pending w \<subseteq> {h} \<longrightarrow> pending (pause w) = {})"
    if "isRunning (st w)" "animationFrame (st w) = Some h"
    using that by (auto simp: pause_def Let_def cancelAnimationFrame_def)
  have d: "isRunning (st (start v now)) \<and> nextHandle v \<in> pending (start v now)"
    if "\<not> isRunning (st v)" for v
    using that
    by (simp add: start_def Let_def requestAnimationFrame_def setPhase_def render_def)
  from a b [of w] b [OF a] c d [OF a] show ?thesis by (simp add: frame_def)
qed

text \<open>The loaded page, not running, and the started page with its request 1, paused.\<close>

theorem loop_idle_witness:
  "\<not> isRunning (st default_page) \<and> loop default_page 16 16 16 = default_page \<and>
   isRunning (st running_page) \<and> animationFrame (st running_page) = Some 1 \<and>
   1 \<in> pending running_page \<and> pending running_page \<subseteq> {1} \<and>
   1 \<notin> pending (pause running_page) \<and> pending (pause running_page) = {} \<and>
   frame (pause running_page) 1 16 16 16 = pause running_page \<and>
   loop (pause running_page) 16 16 16 = pause running_page"
proof -
  have a: "\<not> isRunning (st default_page)" "isRunning (st running_page)"
    "animationFrame (st running_page) = Some 1" "1 \<in> pending running_page"
    "pending running_page \<subseteq> {1}"
    by (simp_all add: default_page_eq running_page_eq)
  from loop_idle [of default_page 16 16 16] loop_idle [of running_page 16 16 16 1] a
  show ?thesis by simp
qed

section \<open>The change listeners\<close>




section \<open>The bound on the elapsed time\<close>

lemma js_le_mul_60: "js_le (Fin 0) m \<Longrightarrow> js_le (Fin 0) (js_mul m (Fin 60))"
  by (cases m) (simp_all add: inf_of_sign_def)

lemma elapsed_bounded_fresh:
  assumes "elapsed (st v) = Fin 0" and "duration (st v) = js_mul m (Fin 60)" and "js_le (Fin 0) m"
  shows "elapsed_bounded v"
  using assms js_le_mul_60 [of m] by (simp add: elapsed_bounded_def)

lemma elapsed_bounded_cong:
  "elapsed (st v) = elapsed (st w) \<Longrightarrow> duration (st v) = duration (st w) \<Longrightarrow>
   elapsed_bounded v = elapsed_bounded w"
  by (simp add: elapsed_bounded_def)

lemma lengths_ok_minutes: "lengths_ok u \<Longrightarrow> js_le (Fin 0) (phase_minutes u p)"
  by (cases p) (simp_all add: lengths_ok_def)

lemma setPhase_bounded:
  "lengths_ok (ui w) \<Longrightarrow> elapsed_bounded (setPhase w p b now)"
  by (rule elapsed_bounded_fresh [where m = "phase_minutes (ui w) p"])
     (simp_all add: setPhase_st lengths_ok_minutes)

lemma reset_bounded: "lengths_ok (ui w) \<Longrightarrow> elapsed_bounded (reset w)"
  by (rule elapsed_bounded_fresh [where m = "focus_or_25 (ui w)"])
     (simp_all add: reset_st lengths_ok_def)

lemma pause_bounded: "elapsed_bounded w \<Longrightarrow> elapsed_bounded (pause w)"
  by (simp add: elapsed_bounded_def pause_def Let_def cancelAnimationFrame_def split: option.splits)

lemma start_bounded:
  assumes "elapsed_bounded w" and "lengths_ok (ui w)"
  shows "elapsed_bounded (start w now)"
proof (cases "\<not> isRunning (st w) \<and> no_startTime w \<and> elapsed (st w) = Fin 0 \<and> duration (st w) = Fin 0")
  case True
  then have "elapsed_bounded (start w now) = elapsed_bounded (setPhase w FOCUS False now)"
    by (intro elapsed_bounded_cong) (simp_all add: start_def Let_def requestAnimationFrame_def)
  with assms(2) show ?thesis by (simp add: setPhase_bounded)
next
  case False
  then have "elapsed_bounded (start w now) = elapsed_bounded w"
    by (intro elapsed_bounded_cong)
       (auto simp: start_def Let_def requestAnimationFrame_def)
  with assms(1) show ?thesis by simp
qed

lemma render_st: "st (render w) = st w"
  by (simp add: render_def Let_def)

lemma render_frames: "nextHandle (render w) = nextHandle w" "pending (render w) = pending w"
  by (simp_all add: render_def Let_def)

lemma render_inputs:
  "phase_minutes (ui (render w)) p = phase_minutes (ui w) p"
  "inputCycles (ui (render w)) = inputCycles (ui w)"
  by (simp_all add: render_def Let_def phase_minutes_def)

lemma nextPhase_fresh:
  "elapsed (st (nextPhase w now)) = Fin 0"
  "\<exists>p. duration (st (nextPhase w now)) = js_mul (phase_minutes (ui w) p) (Fin 60)"
  by (auto simp: nextPhase_def Let_def setPhase_st)

lemma loop_elapsed_fields:
  "duration (st (loop_elapsed w timestamp)) = duration (st w)"
  "elapsed (st (loop_elapsed w timestamp)) =
     js_div (js_sub (Fin timestamp) (reference w timestamp)) (Fin 1000)"
  "ui (loop_elapsed w timestamp) = ui w"
  "isRunning (st (loop_elapsed w timestamp)) = isRunning (st w)"
  "nextHandle (loop_elapsed w timestamp) = nextHandle w"
  by (simp_all add: loop_elapsed_def Let_def)

lemma elapsed_nonneg:
  "js_le r (Fin timestamp) \<Longrightarrow> js_le (Fin 0) (js_div (js_sub (Fin timestamp) r) (Fin 1000))"
  by (cases r) (simp_all add: inf_of_sign_def)

lemma js_le_total: "a \<noteq> NaN \<Longrightarrow> b \<noteq> NaN \<Longrightarrow> \<not> js_le b a \<Longrightarrow> js_le a b"
  by (cases a; cases b) simp_all

lemma js_le_not_NaN: "js_le a b \<Longrightarrow> a \<noteq> NaN \<and> b \<noteq> NaN"
  by (cases a; cases b) simp_all

lemma loop_transition_st:
  assumes "isRunning (st w)"
    and "js_le (duration (st (loop_elapsed w timestamp))) (elapsed (st (loop_elapsed w timestamp)))"
  shows "st (loop w timestamp now1 now2) =
     (st (nextPhase (render (loop_clamp (loop_elapsed w timestamp))) now1))
       \<lparr>startTime := Some (Fin now2), animationFrame := Some (nextHandle w)\<rparr>"
  using assms
  by (simp add: loop_def Let_def requestAnimationFrame_def render_st
      nextPhase_def setPhase_def loop_clamp_def loop_elapsed_fields render_def)

lemma loop_continue_st:
  assumes "isRunning (st w)"
    and "\<not> js_le (duration (st (loop_elapsed w timestamp))) (elapsed (st (loop_elapsed w timestamp)))"
  shows "st (loop w timestamp now1 now2) =
     (st (loop_elapsed w timestamp))\<lparr>animationFrame := Some (nextHandle w)\<rparr>"
  using assms
  by (simp add: loop_def Let_def requestAnimationFrame_def render_st render_frames
      loop_elapsed_fields)

lemma loop_bounded:
  assumes "elapsed_bounded w" and "lengths_ok (ui w)"
    and "js_le (reference w timestamp) (Fin timestamp)"
  shows "elapsed_bounded (loop w timestamp now1 now2)"
proof (cases "isRunning (st w)")
  case False
  with assms(1) show ?thesis by (simp add: loop_def)
next
  case True
  let ?v = "loop_elapsed w timestamp"
  show ?thesis
  proof (cases "js_le (duration (st ?v)) (elapsed (st ?v))")
    case over: True
    let ?u = "render (loop_clamp ?v)"
    obtain p where p: "duration (st (nextPhase ?u now1)) = js_mul (phase_minutes (ui ?u) p) (Fin 60)"
      using nextPhase_fresh(2) [of ?u now1] by blast
    have "phase_minutes (ui ?u) p = phase_minutes (ui w) p"
      by (simp add: render_inputs loop_clamp_def loop_elapsed_fields)
    with p assms(2) show ?thesis
      by (intro elapsed_bounded_fresh [where m = "phase_minutes (ui w) p"])
         (simp_all add: loop_transition_st [OF True over] nextPhase_fresh(1) lengths_ok_minutes)
  next
    case under: False
    have e: "js_le (Fin 0) (elapsed (st ?v))"
      using assms(3) by (simp add: loop_elapsed_fields elapsed_nonneg)
    have "duration (st w) \<noteq> NaN"
      using assms(1) js_le_not_NaN unfolding elapsed_bounded_def by blast
    then have "js_le (elapsed (st ?v)) (duration (st ?v))"
      using under e js_le_not_NaN [OF e]
      by (intro js_le_total) (simp_all add: loop_elapsed_fields)
    with e show ?thesis
      by (simp add: elapsed_bounded_def loop_continue_st [OF True under])
  qed
qed

lemma setPhase_inputs:
  "inputFocus (ui (setPhase w p b now)) = inputFocus (ui w)"
  "inputShort (ui (setPhase w p b now)) = inputShort (ui w)"
  "inputLong (ui (setPhase w p b now)) = inputLong (ui w)"
  by (simp_all add: setPhase_def Let_def render_def)

lemma nextPhase_inputs:
  "inputFocus (ui (nextPhase w now)) = inputFocus (ui w)"
  "inputShort (ui (nextPhase w now)) = inputShort (ui w)"
  "inputLong (ui (nextPhase w now)) = inputLong (ui w)"
  by (simp_all add: nextPhase_def Let_def setPhase_inputs)

lemma start_inputs:
  "inputFocus (ui (start w now)) = inputFocus (ui w)"
  "inputShort (ui (start w now)) = inputShort (ui w)"
  "inputLong (ui (start w now)) = inputLong (ui w)"
  by (simp_all add: start_def Let_def requestAnimationFrame_def setPhase_inputs)

lemma pause_inputs:
  "inputFocus (ui (pause w)) = inputFocus (ui w)"
  "inputShort (ui (pause w)) = inputShort (ui w)"
  "inputLong (ui (pause w)) = inputLong (ui w)"
  by (simp_all add: pause_def Let_def cancelAnimationFrame_def split: option.splits)

lemma loop_inputs:
  "inputFocus (ui (loop w t n1 n2)) = inputFocus (ui w)"
  "inputShort (ui (loop w t n1 n2)) = inputShort (ui w)"
  "inputLong (ui (loop w t n1 n2)) = inputLong (ui w)"
  by (simp_all add: loop_def Let_def requestAnimationFrame_def nextPhase_inputs render_def
      loop_clamp_def loop_elapsed_def)

text \<open>None of the five operations writes an input, so the lengths they read stay the
  same.\<close>

lemma perform_lengths_ok: "lengths_ok (ui (perform w a)) = lengths_ok (ui w)"
  by (cases a)
     (simp_all add: setPhase_inputs start_inputs pause_inputs loop_inputs reset_ui
        lengths_ok_def phase_minutes_def focus_or_25_def)

text \<open>
  Claim C2, as stated: after \<^verbatim>\<open>setPhase\<close>, \<^verbatim>\<open>start\<close>, \<^verbatim>\<open>pause\<close>,
  \<^verbatim>\<open>reset\<close> or a tick, \<open>0 \<le> elapsed \<le> duration\<close> holds whenever the duration is a
  number. The engine takes the minutes as they are typed: with "-1" in the focus input (typed
  on the loaded page), \<^verbatim>\<open>reset\<close> and \<^verbatim>\<open>setPhase\<close> leave the elapsed time 0 above
  the duration of -60 seconds.
\<close>

theorem elapsed_bounded_counterexample:
  "duration (st (reset (type_focus (Str (Fin (- 1))) default_page))) = Fin (- 60) \<and>
   elapsed (st (reset (type_focus (Str (Fin (- 1))) default_page))) = Fin 0 \<and>
   \<not> elapsed_bounded (reset (type_focus (Str (Fin (- 1))) default_page)) \<and>
   duration (st (setPhase (type_focus (Str (Fin (- 1))) default_page) FOCUS False 0)) =
     Fin (- 60) \<and>
   \<not> elapsed_bounded (setPhase (type_focus (Str (Fin (- 1))) default_page) FOCUS False 0)"
  by (simp add: elapsed_bounded_def reset_st setPhase_st type_focus_def focus_or_25_def
      phase_minutes_def js_or_def)

text \<open>
  Claim C2, amended. \<open>0 \<le> elapsed \<le> duration\<close> holds in the initial state, and in every state
  where it holds it holds again after \<^verbatim>\<open>setPhase\<close>, \<^verbatim>\<open>start\<close>, \<^verbatim>\<open>pause\<close>,
  \<^verbatim>\<open>reset\<close> or a tick, provided that no length the engine reads from the inputs is negative
  or \<^verbatim>\<open>NaN\<close> (which the operations, writing no input, do not change) and that the
  timestamp of a tick is not earlier than the reference point. A
  tick of a running timer whose computed elapsed time reaches or exceeds the duration sets the
  elapsed time to the duration, renders, and then performs the phase transition, which sets
  the elapsed time to 0.
\<close>

theorem elapsed_bounded_preserved:
  "elapsed_bounded (initial_world f s l c) \<and>
   (elapsed_bounded w \<and> lengths_ok (ui w) \<and> timestamp_ok w a \<longrightarrow>
      elapsed_bounded (perform w a) \<and> lengths_ok (ui (perform w a))) \<and>
   (isRunning (st w) \<and>
    js_le (duration (st (loop_elapsed w timestamp))) (elapsed (st (loop_elapsed w timestamp))) \<longrightarrow>
      elapsed (st (loop_clamp (loop_elapsed w timestamp))) =
        duration (st (loop_elapsed w timestamp)) \<and>
      st (loop w timestamp now1 now2) =
        (st (nextPhase (render (loop_clamp (loop_elapsed w timestamp))) now1))
          \<lparr>startTime := Some (Fin now2), animationFrame := Some (nextHandle w)\<rparr> \<and>
      elapsed (st (loop w timestamp now1 now2)) = Fin 0)"
proof -
  have i: "elapsed_bounded (initial_world f s l c)"
    by (simp add: elapsed_bounded_def initial_world_def initial_state_def)
  have p: "elapsed_bounded (perform w a) \<and> lengths_ok (ui (perform w a))"
    if "elapsed_bounded w" "lengths_ok (ui w)" "timestamp_ok w a"
    using that perform_lengths_ok [of w a]
    by (cases a)
       (simp_all add: setPhase_bounded start_bounded pause_bounded reset_bounded loop_bounded)
  have t: "elapsed (st (loop_clamp v)) = duration (st v)" for v
    by (simp add: loop_clamp_def)
  from i p t loop_transition_st [of w timestamp now1 now2] nextPhase_fresh(1)
  show ?thesis by simp
qed


text \<open>The running focus phase of 25 minutes, 600 seconds in, at the frame 1500 seconds after
  its reference point: the phase is over and the short break begins.\<close>

theorem elapsed_bounded_preserved_witness:
  "elapsed_bounded mid_focus \<and> lengths_ok (ui mid_focus) \<and>
   timestamp_ok mid_focus (Tick 1501000 1501000 1501001) \<and> isRunning (st mid_focus) \<and>
   js_le (duration (st (loop_elapsed mid_focus 1501000)))
     (elapsed (st (loop_elapsed mid_focus 1501000))) \<and>
   elapsed (st (loop_clamp (loop_elapsed mid_focus 1501000))) = Fin 1500 \<and>
   elapsed_bounded (perform mid_focus (Tick 1501000 1501000 1501001)) \<and>
   elapsed (st (loop mid_focus 1501000 1501000 1501001)) = Fin 0"
proof -
  have h: "elapsed_bounded mid_focus" "lengths_ok (ui mid_focus)"
    "timestamp_ok mid_focus (Tick 1501000 1501000 1501001)" "isRunning (st mid_focus)"
    by (simp_all add: mid_focus_eq elapsed_bounded_def lengths_ok_def phase_minutes_def
        focus_or_25_def js_or_def reference_def)
  have v: "duration (st (loop_elapsed mid_focus 1501000)) = Fin 1500"
    "elapsed (st (loop_elapsed mid_focus 1501000)) = Fin 1500"
    by (simp_all add: mid_focus_eq loop_elapsed_def reference_def Let_def)
  from elapsed_bounded_preserved [of _ _ _ _ mid_focus "Tick 1501000 1501000 1501001"
      1501000 1501000 1501001] h v
  show ?thesis by (simp add: nextPhase_fresh(1))
qed

section \<open>Defaults for the lengths\<close>

text \<open>Where \<^verbatim>\<open>setPhase\<close> reads an input as zero or \<^verbatim>\<open>NaN\<close> (empty, "0", not a
  number) it takes the default, so its duration is 1500, 300 or 900 seconds; and
  \<^verbatim>\<open>nextPhase\<close> takes 4 cycles.\<close>

lemma setPhase_default_lengths:
  "\<not> truthy (Number (inputFocus (ui w))) \<Longrightarrow>
     duration (st (setPhase w FOCUS b now)) = Fin 1500"
  "\<not> truthy (Number (inputShort (ui w))) \<Longrightarrow>
     duration (st (setPhase w SHORT b now)) = Fin 300"
  "\<not> truthy (Number (inputLong (ui w))) \<Longrightarrow>
     duration (st (setPhase w LONG b now)) = Fin 900"
  by (simp_all add: setPhase_st phase_minutes_def js_or_def)

lemma nextPhase_default_cycles:
  assumes "\<not> truthy (Number (inputCycles (ui w)))" and "phase (st w) = FOCUS"
  shows "phase (st (nextPhase w now)) = (if 4 dvd cycleCount (st w) + 1 then LONG else SHORT)"
proof -
  have "js_or (Number (inputCycles (ui w))) (Fin 4) = Fin (of_nat 4)"
    using assms(1) by (simp add: js_or_def)
  then show ?thesis
    using nextPhase_focus(2) [OF assms(2), of now] js_mod_nat [of 4 "cycleCount (st w) + 1"]
    by (simp add: dvd_eq_mod_eq_0 del: of_nat_Suc of_nat_add of_nat_numeral)
qed

text \<open>
  Claim C4: every operation that reads a numeric input which is not numeric, empty or zero
  takes the documented default, and the resulting duration is the default length, never 0
  and never \<^verbatim>\<open>NaN\<close>. \<^verbatim>\<open>setPhase\<close> does so, as
  \<^verbatim>\<open>Number(value) || 25\<close>; \<^verbatim>\<open>reset\<close> computes \<^verbatim>\<open>Number(value || 25)\<close> and does
  so for the empty input only. With "0" in the focus input of the loaded page,
  \<^verbatim>\<open>reset\<close> (also as the focus listener calls it) leaves a duration of 0 and the text
  "00:00"; with a text that is not a number it leaves \<^verbatim>\<open>NaN\<close> and "NaN:NaN";
  \<^verbatim>\<open>setPhase\<close> gives 1500 seconds on both.
\<close>

theorem reset_misses_default:
  "duration (st (reset (type_focus (Str (Fin 0)) default_page))) = Fin 0 \<and>
   timer (ui (reset (type_focus (Str (Fin 0)) default_page))) = ''00:00'' \<and>
   duration (st (onFocusChange (type_focus (Str (Fin 0)) default_page))) = Fin 0 \<and>
   timer (ui (onFocusChange (type_focus (Str (Fin 0)) default_page))) = ''00:00'' \<and>
   duration (st (reset (type_focus (Str NaN) default_page))) = NaN \<and>
   timer (ui (reset (type_focus (Str NaN) default_page))) = ''NaN:NaN'' \<and>
   duration (st (setPhase (type_focus (Str (Fin 0)) default_page) FOCUS False 0)) = Fin 1500 \<and>
   duration (st (setPhase (type_focus (Str NaN) default_page) FOCUS False 0)) = Fin 1500 \<and>
   duration (st (reset (type_focus EmptyStr default_page))) = Fin 1500"
proof -
  have f: "formatMMSS (Fin 0) = ''00:00''" "formatMMSS NaN = ''NaN:NaN''"
    by (simp_all add: format_eval)
  have r: "\<not> isRunning (st default_page)"
    by (simp add: default_page_eq)
  show ?thesis
    by (simp add: reset_st reset_ui setPhase_st onFocusChange_def Let_def r f
        type_focus_def focus_or_25_def phase_minutes_def js_or_def)
qed

section \<open>The ratio round trip\<close>

text \<open>
  On whole numbers the roundings of the listeners are divisions of integers. (For whole
  minutes up to 9000 the exact quotients and products are never so close to a half that the
  double of the source would round differently.)
\<close>

lemma round_div5:
  "Math_round (js_div (Fin (of_int f)) (Fin 5)) = Fin (of_int ((2 * f + 5) div 10))"
proof -
  have "real_of_int f / 5 + 1 / 2 = real_of_int (2 * f + 5) / real_of_int 10" by simp
  then have "\<lfloor>real_of_int f / 5 + 1 / 2\<rfloor> = (2 * f + 5) div 10"
    by (simp only: floor_divide_of_int_eq)
  then show ?thesis by simp
qed

lemma round_mul06:
  "Math_round (js_mul (Fin (of_int f)) (Fin (6 / 10))) = Fin (of_int ((6 * f + 5) div 10))"
proof -
  have "real_of_int f * (6 / 10) + 1 / 2 = real_of_int (6 * f + 5) / real_of_int 10" by simp
  then have "\<lfloor>real_of_int f * (6 / 10) + 1 / 2\<rfloor> = (6 * f + 5) div 10"
    by (simp only: floor_divide_of_int_eq)
  then show ?thesis by simp
qed

lemma round_div06:
  "Math_round (js_div (Fin (of_int l)) (Fin (6 / 10))) = Fin (of_int ((10 * l + 3) div 6))"
proof -
  have "real_of_int l / (6 / 10) + 1 / 2 = real_of_int (10 * l + 3) / real_of_int 6" by simp
  then have "\<lfloor>real_of_int l / (6 / 10) + 1 / 2\<rfloor> = (10 * l + 3) div 6"
    by (simp only: floor_divide_of_int_eq)
  then show ?thesis by simp
qed

lemma round_mul35:
  "Math_round (js_mul (Fin (of_int f)) (Fin (3 / 5))) = Fin (of_int ((6 * f + 5) div 10))"
  using round_mul06 [of f] by simp

lemma round_div35:
  "Math_round (js_div (Fin (of_int l)) (Fin (3 / 5))) = Fin (of_int ((10 * l + 3) div 6))"
  using round_div06 [of l] by simp

lemma clamp_int:
  "clamp (Fin (of_int v)) (Fin (of_int lo)) (Fin (of_int hi)) = Fin (of_int (max lo (min hi v)))"
  by (simp add: clamp_Fin)

lemma clamp_int_1: "clamp (Fin (of_int v)) (Fin 1) LIMIT = Fin (of_int (max 1 (min 9000 v)))"
  using clamp_int [of v 1 9000] by (simp add: LIMIT_def)

lemma clamp_int_5: "clamp (Fin (of_int v)) (Fin 5) LIMIT = Fin (of_int (max 5 (min 9000 v)))"
  using clamp_int [of v 5 9000] by (simp add: LIMIT_def)

lemma js_or_int: "v \<noteq> 0 \<Longrightarrow> js_or (Fin (of_int v)) d = Fin (of_int v)"
  by (simp add: js_or_def)

lemma short_path:
  assumes "5 \<le> f" "f \<le> 9000" "inputFocus (ui w) = Str (Fin (of_int f))"
  shows "inputFocus (ui (onShortChange (onFocusChange w))) =
      Str (Fin (of_int (5 * ((2 * f + 5) div 10))))"
proof -
  define k where "k = (2 * f + 5) div 10"
  have k: "1 \<le> k" "k \<le> 1800" using assms(1,2) unfolding k_def by arith+
  have "inputShort (ui (onFocusChange w)) = Str (Fin (of_int k))"
    using assms k
    by (simp add: onFocusChange_inputs js_or_int round_div5 clamp_int_1 k_def [symmetric]
        del: js_div.simps Math_round.simps)
  moreover have "js_mul (Fin (of_int k)) (Fin 5) = Fin (of_int (5 * k))" by simp
  ultimately show ?thesis using k
    by (simp add: onShortChange_inputs js_or_int clamp_int_5 k_def [symmetric]
        del: js_mul.simps of_int_mult)
qed

lemma long_path:
  assumes "5 \<le> f" "f \<le> 9000" "inputFocus (ui w) = Str (Fin (of_int f))"
  shows "inputFocus (ui (onLongChange (onFocusChange w))) =
      Str (Fin (of_int ((10 * max 5 ((6 * f + 5) div 10) + 3) div 6)))"
proof -
  define l where "l = max 5 ((6 * f + 5) div 10)"
  have l: "5 \<le> l" "l \<le> 5400" using assms(1,2) unfolding l_def by arith+
  then have g: "5 \<le> (10 * l + 3) div 6" "(10 * l + 3) div 6 \<le> 9000" by arith+
  have "max 5 (min 9000 ((6 * f + 5) div 10)) = l"
    using assms(1,2) unfolding l_def by arith
  then have "inputLong (ui (onFocusChange w)) = Str (Fin (of_int l))"
    using assms
    by (simp add: onFocusChange_inputs js_or_int round_mul06 round_mul35 clamp_int_5
        del: js_mul.simps Math_round.simps)
  then show ?thesis using l g
    by (simp add: onLongChange_inputs js_or_int round_div06 round_div35 clamp_int_5
        l_def [symmetric] del: js_div.simps Math_round.simps)
qed

text \<open>
  Claim C6, as stated: for every focus value \<open>f\<close> in \<open>[5, 9000]\<close>, the focus listener followed
  by the short or by the long listener gives back a focus within 1 of \<open>f\<close>. From a focus of 7
  the short input becomes 1 and the short listener gives focus 5; from a focus of 5 the long
  input is clamped up to 5 and the long listener gives focus 8.
\<close>

theorem ratio_round_trip_counterexample:
  "inputFocus (ui (onShortChange (onFocusChange (type_focus (Str (Fin 7)) default_page)))) =
     Str (Fin 5) \<and>
   \<not> in_range (Str (Fin 5)) (7 - 1) (7 + 1) \<and>
   inputFocus (ui (onLongChange (onFocusChange (type_focus (Str (Fin 5)) default_page)))) =
     Str (Fin 8) \<and>
   \<not> in_range (Str (Fin 8)) (5 - 1) (5 + 1)"
  by (simp add: onFocusChange_inputs onShortChange_inputs onLongChange_inputs type_focus_def
      js_or_def clamp_Fin LIMIT_def)

text \<open>For any focus value in the range, the two paths in closed form. (Next to a half the
  double product of the source may round the other way than the exact product here; the
  bounds proved from the closed forms leave room for that, or are attained on values that
  the source computes exactly.)\<close>

lemma js_or_nonzero: "x \<noteq> 0 \<Longrightarrow> js_or (Fin x) d = Fin x"
  by (simp add: js_or_def)

lemma short_path_real:
  assumes "5 \<le> f" "f \<le> 9000" "inputFocus (ui w) = Str (Fin f)"
  shows "inputFocus (ui (onShortChange (onFocusChange w))) =
      Str (Fin (5 * of_int \<lfloor>f / 5 + 1 / 2\<rfloor>))"
proof -
  define k where "k = \<lfloor>f / 5 + 1 / 2\<rfloor>"
  have "1 \<le> f / 5 + 1 / 2" "f / 5 + 1 / 2 < 1801" using assms(1,2) by simp_all
  then have k: "1 \<le> k" "k \<le> 1800" unfolding k_def by (simp_all add: le_floor_iff floor_less_iff)
  then have kr: "1 \<le> real_of_int k" "real_of_int k \<le> 1800" by simp_all
  have "inputShort (ui (onFocusChange w)) = Str (Fin (of_int k))"
    using assms kr
    by (simp add: onFocusChange_inputs js_or_nonzero clamp_Fin LIMIT_def k_def [symmetric])
  then show ?thesis using k kr
    by (simp add: onShortChange_inputs js_or_nonzero clamp_Fin LIMIT_def k_def [symmetric])
qed

lemma long_path_real:
  assumes "5 \<le> f" "f \<le> 9000" "inputFocus (ui w) = Str (Fin f)"
  shows "inputFocus (ui (onLongChange (onFocusChange w))) =
      Str (Fin (of_int \<lfloor>real_of_int (max 5 \<lfloor>f * (3 / 5) + 1 / 2\<rfloor>) / (3 / 5) + 1 / 2\<rfloor>))"
proof -
  define l where "l = max 5 \<lfloor>f * (3 / 5) + 1 / 2\<rfloor>"
  define g where "g = \<lfloor>real_of_int l / (3 / 5) + 1 / 2\<rfloor>"
  have "f * (3 / 5) + 1 / 2 < 5401" using assms(2) by simp
  then have "\<lfloor>f * (3 / 5) + 1 / 2\<rfloor> \<le> 5400" by (simp add: floor_less_iff)
  then have l: "5 \<le> l" "l \<le> 5400" unfolding l_def by simp_all
  then have lr: "5 \<le> real_of_int l" "real_of_int l \<le> 5400" by simp_all
  then have "5 \<le> real_of_int l / (3 / 5) + 1 / 2" "real_of_int l / (3 / 5) + 1 / 2 < 9001"
    by simp_all
  then have g: "5 \<le> g" "g \<le> 9000" unfolding g_def by (simp_all add: le_floor_iff floor_less_iff)
  then have gr: "5 \<le> real_of_int g" "real_of_int g \<le> 9000" by simp_all
  have m: "max 5 (min 9000 (real_of_int \<lfloor>f * (3 / 5) + 1 / 2\<rfloor>)) = real_of_int l"
    using \<open>\<lfloor>f * (3 / 5) + 1 / 2\<rfloor> \<le> 5400\<close> unfolding l_def by simp
  have g': "\<lfloor>real_of_int l * 5 / 3 + 1 / 2\<rfloor> = g"
    unfolding g_def by simp
  have "inputLong (ui (onFocusChange w)) = Str (Fin (of_int l))"
    using assms m
    by (simp add: onFocusChange_inputs js_or_nonzero clamp_Fin LIMIT_def)
  then have "inputFocus (ui (onLongChange (onFocusChange w))) = Str (Fin (of_int g))"
    using lr gr
    by (simp add: onLongChange_inputs js_or_nonzero clamp_Fin LIMIT_def g')
  then show ?thesis
    by (simp only: g_def l_def)
qed

text \<open>The tolerance of the short path cannot be smaller than 5/2: from a focus of 7.5 the
  short input becomes 2 and the short listener gives focus 10. (For the long path, the focus
  of 5 above is 3 away from the 8 it comes back as.)\<close>

lemma short_path_bound_attained:
  "inputFocus (ui (onShortChange (onFocusChange (type_focus (Str (Fin (15 / 2))) default_page)))) =
     Str (Fin 10) \<and>
   \<not> in_range (Str (Fin 10)) (15 / 2 - 12 / 5) (15 / 2 + 12 / 5)"
  by (simp add: onFocusChange_inputs onShortChange_inputs onLongChange_inputs type_focus_def
      js_or_def clamp_Fin LIMIT_def)

text \<open>
  Claim C6, amended. For every focus value \<open>f\<close> in \<open>[5, 9000]\<close>, the focus listener followed by
  the short listener gives a focus that differs from \<open>f\<close> by at most 5/2, and followed by the
  long listener a focus that differs from \<open>f\<close> by at most 3, and by at most 4/3 when
  \<open>f \<ge> 7\<close>. For a whole number \<open>f\<close> the short path stays within 2, and the long path within 1
  when \<open>f \<ge> 7\<close>.
\<close>

theorem ratio_round_trip:
  "5 \<le> f \<and> f \<le> 9000 \<and> inputFocus (ui w) = Str (Fin f) \<longrightarrow>
     in_range (inputFocus (ui (onShortChange (onFocusChange w)))) (f - 5 / 2) (f + 5 / 2) \<and>
     in_range (inputFocus (ui (onLongChange (onFocusChange w)))) (f - 3) (f + 3) \<and>
     (7 \<le> f \<longrightarrow>
        in_range (inputFocus (ui (onLongChange (onFocusChange w)))) (f - 4 / 3) (f + 4 / 3)) \<and>
     (f \<in> \<int> \<longrightarrow>
        in_range (inputFocus (ui (onShortChange (onFocusChange w)))) (f - 2) (f + 2) \<and>
        (7 \<le> f \<longrightarrow>
           in_range (inputFocus (ui (onLongChange (onFocusChange w)))) (f - 1) (f + 1)))"
proof (intro impI, elim conjE)
  assume f: "5 \<le> f" "f \<le> 9000" and w: "inputFocus (ui w) = Str (Fin f)"
  define k where "k = \<lfloor>f / 5 + 1 / 2\<rfloor>"
  define l0 where "l0 = \<lfloor>f * (3 / 5) + 1 / 2\<rfloor>"
  define l where "l = max 5 l0"
  define g where "g = \<lfloor>real_of_int l / (3 / 5) + 1 / 2\<rfloor>"
  have sp: "inputFocus (ui (onShortChange (onFocusChange w))) = Str (Fin (5 * of_int k))"
    unfolding k_def by (rule short_path_real [OF f w])
  have lp: "inputFocus (ui (onLongChange (onFocusChange w))) = Str (Fin (of_int g))"
    unfolding g_def l_def l0_def by (rule long_path_real [OF f w])
  have kb: "real_of_int k \<le> f / 5 + 1 / 2" "f / 5 + 1 / 2 < real_of_int k + 1"
    unfolding k_def by linarith+
  have l0b: "real_of_int l0 \<le> f * (3 / 5) + 1 / 2" "f * (3 / 5) + 1 / 2 < real_of_int l0 + 1"
    unfolding l0_def by linarith+
  have gb: "real_of_int g \<le> real_of_int l / (3 / 5) + 1 / 2"
    "real_of_int l / (3 / 5) + 1 / 2 < real_of_int g + 1"
    unfolding g_def by linarith+
  have s: "f - 5 / 2 \<le> 5 * real_of_int k" "5 * real_of_int k \<le> f + 5 / 2"
    using kb by simp_all
  have lge: "5 \<le> real_of_int l" "real_of_int l0 \<le> real_of_int l"
    unfolding l_def by simp_all
  have clamped: "g = 8 \<and> f < 15 / 2" if "\<not> 5 \<le> l0"
  proof -
    from that have l5: "real_of_int l = 5" unfolding l_def by simp
    from that have "real_of_int l0 + 1 \<le> 5" by linarith
    with l0b have u: "f < 15 / 2" by simp
    from gb l5 have "47 / 6 < real_of_int g" "real_of_int g \<le> 53 / 6" by simp_all
    then have "7 < g" "g \<le> 8" by linarith+
    with u show ?thesis by simp
  qed
  have l3: "f - 3 \<le> real_of_int g \<and> real_of_int g \<le> f + 3"
  proof (cases "5 \<le> l0")
    case True
    then have "real_of_int l = real_of_int l0" unfolding l_def by simp
    with l0b gb show ?thesis by simp
  next
    case False
    with clamped f(1) show ?thesis by simp
  qed
  have l43: "f - 4 / 3 \<le> real_of_int g \<and> real_of_int g \<le> f + 4 / 3" if "7 \<le> f"
  proof (cases "5 \<le> l0")
    case True
    then have "real_of_int l = real_of_int l0" unfolding l_def by simp
    with l0b gb show ?thesis by simp
  next
    case False
    with clamped that show ?thesis by simp
  qed
  have whole: "in_range (inputFocus (ui (onShortChange (onFocusChange w)))) (f - 2) (f + 2) \<and>
      (7 \<le> f \<longrightarrow>
         in_range (inputFocus (ui (onLongChange (onFocusChange w)))) (f - 1) (f + 1))"
    if "f \<in> \<int>"
  proof -
    from that obtain i where i: "f = of_int i" by (rule Ints_cases)
    with f have ib: "5 \<le> i" "i \<le> 9000" by simp_all
    from w i have wi: "inputFocus (ui w) = Str (Fin (of_int i))" by simp
    define a where "a = 5 * ((2 * i + 5) div 10)"
    define b where "b = (10 * max 5 ((6 * i + 5) div 10) + 3) div 6"
    have ab: "i - 2 \<le> a" "a \<le> i + 2" unfolding a_def by arith+
    have bb: "i - 1 \<le> b \<and> b \<le> i + 1" if "7 \<le> i" using that ib unfolding b_def by arith
    have r: "in_range (Str (Fin (of_int x))) (of_int lo) (of_int hi)" if "lo \<le> x" "x \<le> hi"
      for x lo hi :: int using that by simp
    have "in_range (Str (Fin (of_int a))) (of_int i - 2) (of_int i + 2)"
      using r [of "i - 2" a "i + 2"] ab by simp
    moreover have "in_range (Str (Fin (of_int b))) (of_int i - 1) (of_int i + 1)" if "7 \<le> i"
      using r [of "i - 1" b "i + 1"] bb [OF that] by simp
    ultimately show ?thesis
      unfolding short_path [OF ib wi] long_path [OF ib wi] a_def [symmetric] b_def [symmetric] i
      by simp
  qed
  show "in_range (inputFocus (ui (onShortChange (onFocusChange w)))) (f - 5 / 2) (f + 5 / 2) \<and>
     in_range (inputFocus (ui (onLongChange (onFocusChange w)))) (f - 3) (f + 3) \<and>
     (7 \<le> f \<longrightarrow>
        in_range (inputFocus (ui (onLongChange (onFocusChange w)))) (f - 4 / 3) (f + 4 / 3)) \<and>
     (f \<in> \<int> \<longrightarrow>
        in_range (inputFocus (ui (onShortChange (onFocusChange w)))) (f - 2) (f + 2) \<and>
        (7 \<le> f \<longrightarrow>
           in_range (inputFocus (ui (onLongChange (onFocusChange w)))) (f - 1) (f + 1)))"
    using s l3 l43 whole by (simp add: sp lp)
qed

text \<open>A focus of 7.4 minutes, where the short value is rounded down to 1 and the long value
  is clamped up to 5; and a focus of 7 minutes.\<close>

theorem ratio_round_trip_witness:
  "(5 :: real) \<le> 37 / 5 \<and> (37 / 5 :: real) \<le> 9000 \<and> (7 :: real) \<le> 37 / 5 \<and>
   inputFocus (ui (type_focus (Str (Fin (37 / 5))) default_page)) = Str (Fin (37 / 5)) \<and>
   inputFocus (ui (onShortChange (onFocusChange (type_focus (Str (Fin (37 / 5))) default_page)))) =
     Str (Fin 5) \<and>
   in_range (Str (Fin 5)) (37 / 5 - 5 / 2) (37 / 5 + 5 / 2) \<and>
   inputFocus (ui (onLongChange (onFocusChange (type_focus (Str (Fin (37 / 5))) default_page)))) =
     Str (Fin 8) \<and>
   in_range (Str (Fin 8)) (37 / 5 - 4 / 3) (37 / 5 + 4 / 3) \<and>
   (7 :: real) \<in> \<int> \<and>
   in_range (inputFocus (ui (onShortChange (onFocusChange (type_focus (Str (Fin 7)) default_page)))))
     (7 - 2) (7 + 2) \<and>
   in_range (inputFocus (ui (onLongChange (onFocusChange (type_focus (Str (Fin 7)) default_page)))))
     (7 - 1) (7 + 1)"
proof -
  have v: "inputFocus (ui (onShortChange (onFocusChange (type_focus (Str (Fin (37 / 5))) default_page)))) =
     Str (Fin 5)"
    "inputFocus (ui (onLongChange (onFocusChange (type_focus (Str (Fin (37 / 5))) default_page)))) =
     Str (Fin 8)"
    by (simp_all add: onFocusChange_inputs onShortChange_inputs onLongChange_inputs type_focus_def
        js_or_def clamp_Fin LIMIT_def)
  have h: "inputFocus (ui (type_focus (Str (Fin v)) default_page)) = Str (Fin v)" for v
    by (simp add: type_focus_def)
  from ratio_round_trip [of "37 / 5" "type_focus (Str (Fin (37 / 5))) default_page"]
    ratio_round_trip [of 7 "type_focus (Str (Fin 7)) default_page"] h v
  show ?thesis by simp
qed


end
